theory Spec2Isabelle
  imports Main
begin

section \<open>Go strings and errors\<close>

text \<open>
  A Go \<open>string\<close> and a \<open>[]byte\<close> are byte sequences: both are modelled as \<open>string\<close>
  (a list of 8-bit characters). \<open>fmt.Sprintf\<close> with \<open>%s\<close> verbs is concatenation.
\<close>

definition dquote :: char where
  "dquote = CHR 0x22"

definition backslash :: char where
  "backslash = CHR 0x5C"

definition CR :: char where
  "CR = CHR 0x0D"

definition LF :: char where
  "LF = CHR 0x0A"

definition TAB :: char where
  "TAB = CHR 0x09"

fun strings_HasPrefix :: "string \<Rightarrow> string \<Rightarrow> bool" where
  "strings_HasPrefix s [] = True"
| "strings_HasPrefix [] (p # ps) = False"
| "strings_HasPrefix (c # cs) (p # ps) = (c = p \<and> strings_HasPrefix cs ps)"

definition strings_HasSuffix :: "string \<Rightarrow> string \<Rightarrow> bool" where
  "strings_HasSuffix s suffix = strings_HasPrefix (rev s) (rev suffix)"

fun strings_Contains :: "string \<Rightarrow> string \<Rightarrow> bool" where
  "strings_Contains [] substr = (substr = [])"
| "strings_Contains (c # cs) substr =
     (strings_HasPrefix (c # cs) substr \<or> strings_Contains cs substr)"

text \<open>
  Errors are values. \<open>New\<close> is an error of a collaborator or of \<open>fmt.Errorf\<close>, with its
  message; \<open>errors.Wrap err msg\<close> of \<open>github.com/pkg/errors\<close> keeps the cause and puts the
  message in front of it. Every call of \<open>errors.Wrap\<close> in the sources is under
  \<open>err != nil\<close>, so the wrapper of a nil error is not needed.
\<close>

datatype error = New string | Wrapped error string

definition errors_Wrap :: "error \<Rightarrow> string \<Rightarrow> error" where
  "errors_Wrap err message = Wrapped err message"

definition fmt_Errorf :: "string \<Rightarrow> error" where
  "fmt_Errorf msg = New msg"

fun Error :: "error \<Rightarrow> string" where
  "Error (New msg) = msg"
| "Error (Wrapped err message) = message @ '': '' @ Error err"

text \<open>
  The errors of \<open>json.Unmarshal\<close>: a syntax error, or a JSON value (its kind) that does
  not fit the Go field it is decoded into.
\<close>

datatype json_error = SyntaxError | UnmarshalTypeError string string

section \<open>Artifacts\<close>

text \<open>
  The schema package is not among the sources. The artifact is what the code reads of
  it: a workspace and one optional sub-struct per artifact type, of which the dispatch
  takes the first that is not nil.
\<close>

record DockerArtifact =
  DockerfilePath :: string
  BuildArgs :: "(string \<times> string option) list"

record BazelArtifact =
  BuildTarget :: string

record JibMavenArtifact =
  MavenProject :: string

record JibGradleArtifact =
  GradleProject :: string

record Artifact =
  ImageName :: string
  Workspace :: string
  DockerArtifact :: "DockerArtifact option"
  BazelArtifact :: "BazelArtifact option"
  JibMavenArtifact :: "JibMavenArtifact option"
  JibGradleArtifact :: "JibGradleArtifact option"

record Cmd =
  Path :: string
  Args :: "string list"
  Env :: "string list option"
  Dir :: string

section \<open>Local builds\<close>

text \<open>
  The functions of the \<open>docker\<close> package that the builders call are not among the
  sources: they are parameters, each a function that gives the result of the call.
  The same holds for the local builder's other collaborators (the docker daemon, the
  command runner, the Bazel and Jib backends, the \<open>%+v\<close> formatting of the artifact
  type), kept beside its configuration.
\<close>

record DockerPkg =
  NormalizeDockerfilePath :: "string \<Rightarrow> string \<Rightarrow> error + string"
  GetBuildArgs :: "DockerArtifact \<Rightarrow> string list"
  FullRemoteReference :: "string \<Rightarrow> string \<times> error option"

record LocalBuilder =
  cfg_UseDockerCLI :: bool
  cfg_UseBuildkit :: bool
  pushImages :: bool
  docker :: DockerPkg
  os_Environ :: "string list"
  RunCmd :: "Cmd \<Rightarrow> error option"
  localDocker_Build :: "string \<Rightarrow> DockerArtifact \<Rightarrow> string \<Rightarrow> error + string"
  localDocker_Push :: "string \<Rightarrow> error + string"
  buildBazel :: "string \<Rightarrow> BazelArtifact \<Rightarrow> string \<Rightarrow> string \<times> error option"
  buildJibMaven :: "string \<Rightarrow> JibMavenArtifact \<Rightarrow> string \<Rightarrow> string \<times> error option"
  buildJibGradle :: "string \<Rightarrow> JibGradleArtifact \<Rightarrow> string \<Rightarrow> string \<times> error option"
  fmt_ArtifactType :: "Artifact \<Rightarrow> string"

text \<open>The build step of \<open>buildDocker\<close>: the docker CLI, or the daemon's API.\<close>

definition runDockerBuild :: "LocalBuilder \<Rightarrow> string \<Rightarrow> DockerArtifact \<Rightarrow> string \<Rightarrow> error option" where
  "runDockerBuild b workspace a fqn =
     (if cfg_UseDockerCLI b \<or> cfg_UseBuildkit b then
        (case NormalizeDockerfilePath (docker b) workspace (DockerfilePath a) of
           Inl err \<Rightarrow> Some (errors_Wrap err ''normalizing dockerfile path'')
         | Inr dockerfilePath \<Rightarrow>
             (let args = [''build'', workspace, ''--file'', dockerfilePath, ''-t'', fqn]
                          @ GetBuildArgs (docker b) a;
                  cmd = \<lparr>Path = ''docker'', Args = ''docker'' # args,
                         Env = (if cfg_UseBuildkit b
                                then Some (os_Environ b @ [''DOCKER_BUILDKIT=1''])
                                else None),
                         Dir = ''''\<rparr>
              in case RunCmd b cmd of
                   Some err \<Rightarrow> Some (errors_Wrap err ''running build'')
                 | None \<Rightarrow> None))
      else
        (case localDocker_Build b workspace a fqn of
           Inl err \<Rightarrow> Some (errors_Wrap err ''running build'')
         | Inr imageID \<Rightarrow> None))"

definition buildDocker :: "LocalBuilder \<Rightarrow> string \<Rightarrow> DockerArtifact \<Rightarrow> string \<Rightarrow> string \<times> error option" where
  "buildDocker b workspace a fqn =
     (case runDockerBuild b workspace a fqn of
        Some err \<Rightarrow> ('''', Some err)
      | None \<Rightarrow>
          (if pushImages b then
             (case localDocker_Push b fqn of
                Inl err \<Rightarrow> ('''', Some (errors_Wrap err ''pushing image''))
              | Inr digest \<Rightarrow> (fqn @ ''@'' @ digest, None))
           else (fqn, None)))"

definition buildArtifactLocally :: "LocalBuilder \<Rightarrow> Artifact \<Rightarrow> string \<Rightarrow> string \<times> error option" where
  "buildArtifactLocally b artifact fqn =
     (case DockerArtifact artifact of
        Some d \<Rightarrow> buildDocker b (Workspace artifact) d fqn
      | None \<Rightarrow>
     (case BazelArtifact artifact of
        Some z \<Rightarrow> buildBazel b (Workspace artifact) z fqn
      | None \<Rightarrow>
     (case JibMavenArtifact artifact of
        Some m \<Rightarrow> buildJibMaven b (Workspace artifact) m fqn
      | None \<Rightarrow>
     (case JibGradleArtifact artifact of
        Some g \<Rightarrow> buildJibGradle b (Workspace artifact) g fqn
      | None \<Rightarrow>
          ('''', Some (fmt_Errorf (''undefined artifact type: '' @ fmt_ArtifactType b artifact)))))))"

section \<open>Control flow: results, process exit, deferred calls\<close>

text \<open>
  A call either returns to its caller, or the process ends inside it (\<open>os.Exit\<close>, which
  \<open>logrus.Fatalf\<close> calls after it has logged), or it panics (a nil pointer
  dereference). What a call does to the world is the list of events it leaves, in
  order. A log event holds the format and the error that fills its \<open>%s\<close>.
\<close>

datatype 'a outcome = Return 'a | Exit | Panic

datatype event =
    Call_teardown
  | Call_Cleanup
  | Call_Create "string list"
  | Call_Delete string
  | Call_ModifyPod string
  | Call_streamLogs string
  | Call_WaitForPodComplete string
  | Call_waitForLogs string
  | Call_RunCmdOut Cmd
  | Log_Fatalf string error
  | Log_Warnf string json_error

type_synonym 'a run = "'a outcome \<times> event list"

text \<open>
  \<open>defer d\<close> followed by the rest of the function body: the deferred call runs when the
  body returns and when it panics, not when the process has exited in the body; when
  the process exits in the deferred call, the body's result is never returned.
\<close>

definition go_defer :: "unit run \<Rightarrow> 'a run \<Rightarrow> 'a run" where
  "go_defer d body =
     (case body of
        (Exit, t) \<Rightarrow> (Exit, t)
      | (Return r, t) \<Rightarrow>
          (case d of
             (Return u, t') \<Rightarrow> (Return r, t @ t')
           | (Exit, t') \<Rightarrow> (Exit, t @ t')
           | (Panic, t') \<Rightarrow> (Panic, t @ t'))
      | (Panic, t) \<Rightarrow>
          (case d of
             (Exit, t') \<Rightarrow> (Exit, t @ t')
           | (x, t') \<Rightarrow> (Panic, t @ t')))"

definition after :: "event list \<Rightarrow> 'a run \<Rightarrow> 'a run" where
  "after t body = (case body of (r, t') \<Rightarrow> (r, t @ t'))"

section \<open>Remote builds with Kaniko\<close>

record KanikoCache =
  Repo :: string

record KanikoBuilder =
  AdditionalFlags :: "string list"
  Cache :: "KanikoCache option"
  Namespace :: string

text \<open>
  The cluster and the other packages, as the results of the calls the builder makes.
  A pod is its name. \<open>InParallel\<close> of the \<open>build\<close> package is a parameter as well.
\<close>

type_synonym build_Artifact = "string \<times> string"

record KanikoWorld =
  setupSecret :: "error option"
  InParallel :: "(Artifact \<Rightarrow> string \<Rightarrow> (string \<times> error option) run) \<Rightarrow> Artifact list
                  \<Rightarrow> (build_Artifact list \<times> error option) run"
  s_Setup :: "Artifact \<Rightarrow> string \<Rightarrow> error + string"
  GetClientset :: "error option"
  logLevel :: string
  dockerpkg :: DockerPkg
  pods_Create :: "string list \<Rightarrow> error + string"
  pods_Delete :: "string \<Rightarrow> error option"
  s_ModifyPod :: "string \<Rightarrow> error option"
  WaitForPodComplete :: "string \<Rightarrow> error option"

text \<open>The arguments of the Kaniko executor, built as the source builds them.\<close>

definition kanikoArgs :: "KanikoBuilder \<Rightarrow> KanikoWorld \<Rightarrow> DockerArtifact \<Rightarrow> string \<Rightarrow> string \<Rightarrow> string list" where
  "kanikoArgs b w d context fqn =
     (let args0 = [''--dockerfile='' @ DockerfilePath d,
                   ''--context='' @ context,
                   ''--destination='' @ fqn,
                   ''-v='' @ logLevel w];
          args1 = args0 @ AdditionalFlags b;
          args2 = args1 @ GetBuildArgs (dockerpkg w) d
      in case Cache b of
           None \<Rightarrow> args2
         | Some c \<Rightarrow>
             (let args3 = args2 @ [''--cache=true'']
              in if Repo c \<noteq> '''' then args3 @ [''--cache-repo='' @ Repo c] else args3))"

text \<open>The deferred deletion of the pod: a failure is logged with \<open>logrus.Fatalf\<close>.\<close>

definition deletePod :: "KanikoWorld \<Rightarrow> string \<Rightarrow> unit run" where
  "deletePod w p =
     (case pods_Delete w p of
        Some err \<Rightarrow> (Exit, [Call_Delete p, Log_Fatalf ''deleting pod: %s'' err])
      | None \<Rightarrow> (Return (), [Call_Delete p]))"

text \<open>
  Modelled from the spec: \<open>streamLogs\<close> is not among the sources. It starts the
  background copy of the pod's log to the output and returns the function that waits
  until that copy has finished; the two calls are the events \<open>Call_streamLogs\<close> and
  \<open>Call_waitForLogs\<close>.
\<close>

definition runPod :: "KanikoWorld \<Rightarrow> string \<Rightarrow> string \<Rightarrow> (string \<times> error option) run" where
  "runPod w p fqn =
     (case s_ModifyPod w p of
        Some err \<Rightarrow>
          (Return ('''', Some (errors_Wrap err ''modifying kaniko pod'')), [Call_ModifyPod p])
      | None \<Rightarrow>
          after [Call_ModifyPod p, Call_streamLogs p, Call_WaitForPodComplete p]
            (case WaitForPodComplete w p of
               Some err \<Rightarrow>
                 (Return ('''', Some (errors_Wrap err ''waiting for pod to complete'')), [])
             | None \<Rightarrow>
                 (Return (FullRemoteReference (dockerpkg w) fqn), [Call_waitForLogs p])))"

definition buildArtifactWithKaniko :: "KanikoBuilder \<Rightarrow> KanikoWorld \<Rightarrow> Artifact \<Rightarrow> string \<Rightarrow> (string \<times> error option) run" where
  "buildArtifactWithKaniko b w artifact fqn =
     (case s_Setup w artifact fqn of
        Inl err \<Rightarrow> (Return ('''', Some (errors_Wrap err ''setting up build context'')), [])
      | Inr context \<Rightarrow>
          go_defer (Return (), [Call_Cleanup])
            (case GetClientset w of
               Some err \<Rightarrow> (Return ('''', Some (errors_Wrap err '''')), [])
             | None \<Rightarrow>
                 (case DockerArtifact artifact of
                    None \<Rightarrow> (Panic, [])
                  | Some d \<Rightarrow>
                      (let args = kanikoArgs b w d context fqn
                       in after [Call_Create args]
                            (case pods_Create w args of
                               Inl err \<Rightarrow>
                                 (Return ('''', Some (errors_Wrap err ''creating kaniko pod'')), [])
                             | Inr p \<Rightarrow> go_defer (deletePod w p) (runPod w p fqn))))))"

definition Build :: "KanikoBuilder \<Rightarrow> KanikoWorld \<Rightarrow> Artifact list \<Rightarrow> (build_Artifact list \<times> error option) run" where
  "Build b w artifacts =
     (case setupSecret w of
        Some err \<Rightarrow> (Return ([], Some (errors_Wrap err ''setting up secret'')), [])
      | None \<Rightarrow>
          go_defer (Return (), [Call_teardown])
            (InParallel w (buildArtifactWithKaniko b w) artifacts))"

section \<open>JSON, as \<open>encoding/json\<close> decodes it\<close>

text \<open>
  \<open>json.Unmarshal\<close> first checks that the whole input is one valid JSON value, with the
  scanner below (a state machine over the bytes, with a stack of the open objects and
  arrays), and only then decodes it. The error texts are left out: a syntax error is
  \<open>SyntaxError\<close>.
\<close>

definition byte :: "char \<Rightarrow> nat" where
  "byte c = of_char c"

definition isSpace :: "char \<Rightarrow> bool" where
  "isSpace c = (c = CHR '' '' \<or> c = TAB \<or> c = CR \<or> c = LF)"

definition isDigit :: "char \<Rightarrow> bool" where
  "isDigit c = (48 \<le> byte c \<and> byte c \<le> 57)"

definition isDigit19 :: "char \<Rightarrow> bool" where
  "isDigit19 c = (49 \<le> byte c \<and> byte c \<le> 57)"

definition isHex :: "char \<Rightarrow> bool" where
  "isHex c = (isDigit c \<or> (97 \<le> byte c \<and> byte c \<le> 102) \<or> (65 \<le> byte c \<and> byte c \<le> 70))"

datatype scan_state =
    stateBeginValue | stateBeginValueOrEmpty | stateBeginStringOrEmpty | stateBeginString
  | stateEndValue | stateEndTop
  | stateInString | stateInStringEsc
  | stateInStringEscU | stateInStringEscU1 | stateInStringEscU12 | stateInStringEscU123
  | stateNeg | state1 | state0 | stateDot | stateDot0 | stateE | stateESign | stateE0
  | stateT | stateTr | stateTru
  | stateF | stateFa | stateFal | stateFals
  | stateN | stateNu | stateNul
  | stateError

datatype parse_state = parseObjectKey | parseObjectValue | parseArrayValue

record scanner =
  step :: scan_state
  parseState :: "parse_state list"
  endTop :: bool

definition scan_reset :: scanner where
  "scan_reset = \<lparr>step = stateBeginValue, parseState = [], endTop = False\<rparr>"

definition scan_error :: "scanner \<Rightarrow> scanner" where
  "scan_error s = s\<lparr>step := stateError\<rparr>"

definition popParseState :: "scanner \<Rightarrow> scanner" where
  "popParseState s =
     (let ps = tl (parseState s)
      in if ps = [] then s\<lparr>parseState := ps, step := stateEndTop, endTop := True\<rparr>
         else s\<lparr>parseState := ps, step := stateEndValue\<rparr>)"

definition do_stateEndTop :: "scanner \<Rightarrow> char \<Rightarrow> scanner" where
  "do_stateEndTop s c = (if \<not> isSpace c then scan_error s else s)"

definition do_stateEndValue :: "scanner \<Rightarrow> char \<Rightarrow> scanner" where
  "do_stateEndValue s c =
     (case parseState s of
        [] \<Rightarrow> do_stateEndTop (s\<lparr>step := stateEndTop, endTop := True\<rparr>) c
      | ps # rest \<Rightarrow>
          if isSpace c then s\<lparr>step := stateEndValue\<rparr>
          else (case ps of
                  parseObjectKey \<Rightarrow>
                    if c = CHR '':'' then s\<lparr>parseState := parseObjectValue # rest, step := stateBeginValue\<rparr>
                    else scan_error s
                | parseObjectValue \<Rightarrow>
                    if c = CHR '','' then s\<lparr>parseState := parseObjectKey # rest, step := stateBeginString\<rparr>
                    else if c = CHR ''}'' then popParseState s
                    else scan_error s
                | parseArrayValue \<Rightarrow>
                    if c = CHR '','' then s\<lparr>step := stateBeginValue\<rparr>
                    else if c = CHR '']'' then popParseState s
                    else scan_error s))"

definition do_stateBeginValue :: "scanner \<Rightarrow> char \<Rightarrow> scanner" where
  "do_stateBeginValue s c =
     (if isSpace c then s
      else if c = CHR ''{'' then s\<lparr>step := stateBeginStringOrEmpty, parseState := parseObjectKey # parseState s\<rparr>
      else if c = CHR ''['' then s\<lparr>step := stateBeginValueOrEmpty, parseState := parseArrayValue # parseState s\<rparr>
      else if c = dquote then s\<lparr>step := stateInString\<rparr>
      else if c = CHR ''-'' then s\<lparr>step := stateNeg\<rparr>
      else if c = CHR ''0'' then s\<lparr>step := state0\<rparr>
      else if c = CHR ''t'' then s\<lparr>step := stateT\<rparr>
      else if c = CHR ''f'' then s\<lparr>step := stateF\<rparr>
      else if c = CHR ''n'' then s\<lparr>step := stateN\<rparr>
      else if isDigit19 c then s\<lparr>step := state1\<rparr>
      else scan_error s)"

definition do_stateBeginString :: "scanner \<Rightarrow> char \<Rightarrow> scanner" where
  "do_stateBeginString s c =
     (if isSpace c then s
      else if c = dquote then s\<lparr>step := stateInString\<rparr>
      else scan_error s)"

definition do_state0 :: "scanner \<Rightarrow> char \<Rightarrow> scanner" where
  "do_state0 s c =
     (if c = CHR ''.'' then s\<lparr>step := stateDot\<rparr>
      else if c = CHR ''e'' \<or> c = CHR ''E'' then s\<lparr>step := stateE\<rparr>
      else do_stateEndValue s c)"

definition do_stateESign :: "scanner \<Rightarrow> char \<Rightarrow> scanner" where
  "do_stateESign s c = (if isDigit c then s\<lparr>step := stateE0\<rparr> else scan_error s)"

definition expect :: "char \<Rightarrow> scan_state \<Rightarrow> scanner \<Rightarrow> char \<Rightarrow> scanner" where
  "expect want next s c = (if c = want then s\<lparr>step := next\<rparr> else scan_error s)"

definition expectHex :: "scan_state \<Rightarrow> scanner \<Rightarrow> char \<Rightarrow> scanner" where
  "expectHex next s c = (if isHex c then s\<lparr>step := next\<rparr> else scan_error s)"

text \<open>One byte: the scanner's \<open>s.step(s, c)\<close>, by the state it is in.\<close>

definition scan_step :: "scanner \<Rightarrow> char \<Rightarrow> scanner" where
  "scan_step s c =
     (case step s of
        stateBeginValue \<Rightarrow> do_stateBeginValue s c
      | stateBeginValueOrEmpty \<Rightarrow>
          if isSpace c then s
          else if c = CHR '']'' then do_stateEndValue s c
          else do_stateBeginValue s c
      | stateBeginStringOrEmpty \<Rightarrow>
          if isSpace c then s
          else if c = CHR ''}'' then
            do_stateEndValue (s\<lparr>parseState := parseObjectValue # tl (parseState s)\<rparr>) c
          else do_stateBeginString s c
      | stateBeginString \<Rightarrow> do_stateBeginString s c
      | stateEndValue \<Rightarrow> do_stateEndValue s c
      | stateEndTop \<Rightarrow> do_stateEndTop s c
      | stateInString \<Rightarrow>
          if c = dquote then s\<lparr>step := stateEndValue\<rparr>
          else if c = backslash then s\<lparr>step := stateInStringEsc\<rparr>
          else if byte c < 32 then scan_error s
          else s
      | stateInStringEsc \<Rightarrow>
          if c \<in> set ''bfnrt/'' \<or> c = backslash \<or> c = dquote then s\<lparr>step := stateInString\<rparr>
          else if c = CHR ''u'' then s\<lparr>step := stateInStringEscU\<rparr>
          else scan_error s
      | stateInStringEscU \<Rightarrow> expectHex stateInStringEscU1 s c
      | stateInStringEscU1 \<Rightarrow> expectHex stateInStringEscU12 s c
      | stateInStringEscU12 \<Rightarrow> expectHex stateInStringEscU123 s c
      | stateInStringEscU123 \<Rightarrow> expectHex stateInString s c
      | stateNeg \<Rightarrow>
          if c = CHR ''0'' then s\<lparr>step := state0\<rparr>
          else if isDigit19 c then s\<lparr>step := state1\<rparr>
          else scan_error s
      | state1 \<Rightarrow> if isDigit c then s\<lparr>step := state1\<rparr> else do_state0 s c
      | state0 \<Rightarrow> do_state0 s c
      | stateDot \<Rightarrow> if isDigit c then s\<lparr>step := stateDot0\<rparr> else scan_error s
      | stateDot0 \<Rightarrow>
          if isDigit c then s
          else if c = CHR ''e'' \<or> c = CHR ''E'' then s\<lparr>step := stateE\<rparr>
          else do_stateEndValue s c
      | stateE \<Rightarrow>
          if c = CHR ''+'' \<or> c = CHR ''-'' then s\<lparr>step := stateESign\<rparr>
          else do_stateESign s c
      | stateESign \<Rightarrow> do_stateESign s c
      | stateE0 \<Rightarrow> if isDigit c then s else do_stateEndValue s c
      | stateT \<Rightarrow> expect (CHR ''r'') stateTr s c
      | stateTr \<Rightarrow> expect (CHR ''u'') stateTru s c
      | stateTru \<Rightarrow> expect (CHR ''e'') stateEndValue s c
      | stateF \<Rightarrow> expect (CHR ''a'') stateFa s c
      | stateFa \<Rightarrow> expect (CHR ''l'') stateFal s c
      | stateFal \<Rightarrow> expect (CHR ''s'') stateFals s c
      | stateFals \<Rightarrow> expect (CHR ''e'') stateEndValue s c
      | stateN \<Rightarrow> expect (CHR ''u'') stateNu s c
      | stateNu \<Rightarrow> expect (CHR ''l'') stateNul s c
      | stateNul \<Rightarrow> expect (CHR ''l'') stateEndValue s c
      | stateError \<Rightarrow> s)"

text \<open>
  \<open>checkValid\<close>: every byte through the scanner, then the end of the input (a space is
  fed to a scanner that has not seen the end of the top-level value).
\<close>

definition scan_eof :: "scanner \<Rightarrow> bool" where
  "scan_eof s =
     (if step s = stateError then False
      else if endTop s then True
      else endTop (scan_step s (CHR '' '')))"

definition checkValid :: "string \<Rightarrow> bool" where
  "checkValid data = scan_eof (foldl scan_step scan_reset data)"

text \<open>
  Decoding a string literal (\<open>unquoteBytes\<close>, on the bytes between the quotes): escape
  sequences are replaced, \<open>\uXXXX\<close> by the UTF-8 encoding of the code point (a surrogate
  pair by one code point, a lone surrogate by U+FFFD), and bytes that are not valid
  UTF-8 by U+FFFD.
\<close>

definition hexval :: "char \<Rightarrow> nat" where
  "hexval c =
     (if isDigit c then byte c - 48
      else if 97 \<le> byte c \<and> byte c \<le> 102 then byte c - 87
      else byte c - 55)"

definition getu4 :: "string \<Rightarrow> nat option" where
  "getu4 s =
     (case s of
        a # b # c # d # rest \<Rightarrow>
          if isHex a \<and> isHex b \<and> isHex c \<and> isHex d
          then Some (((hexval a * 16 + hexval b) * 16 + hexval c) * 16 + hexval d)
          else None
      | _ \<Rightarrow> None)"

definition RuneError :: string where
  "RuneError = [char_of (239::nat), char_of (191::nat), char_of (189::nat)]"

definition IsSurrogate :: "nat \<Rightarrow> bool" where
  "IsSurrogate r = (55296 \<le> r \<and> r < 57344)"

definition EncodeRune :: "nat \<Rightarrow> string" where
  "EncodeRune r =
     (if r \<le> 127 then [char_of r]
      else if r \<le> 2047 then [char_of (192 + r div 64), char_of (128 + r mod 64)]
      else if r > 1114111 \<or> IsSurrogate r then RuneError
      else if r \<le> 65535 then
        [char_of (224 + r div 4096), char_of (128 + (r div 64) mod 64), char_of (128 + r mod 64)]
      else
        [char_of (240 + r div 262144), char_of (128 + (r div 4096) mod 64),
         char_of (128 + (r div 64) mod 64), char_of (128 + r mod 64)])"

definition utf16_DecodeRune :: "nat \<Rightarrow> nat option \<Rightarrow> nat option" where
  "utf16_DecodeRune r1 r2 =
     (case r2 of
        None \<Rightarrow> None
      | Some r2' \<Rightarrow>
          if 55296 \<le> r1 \<and> r1 < 56320 \<and> 56320 \<le> r2' \<and> r2' < 57344
          then Some ((r1 - 55296) * 1024 + (r2' - 56320) + 65536)
          else None)"

definition inRange :: "nat \<Rightarrow> nat \<Rightarrow> string \<Rightarrow> nat \<Rightarrow> bool" where
  "inRange lo hi s i = (i < length s \<and> lo \<le> byte (s ! i) \<and> byte (s ! i) \<le> hi)"

text \<open>
  \<open>utf8.DecodeRune\<close>, as far as the decoder needs it: the length of the valid UTF-8
  sequence at the head of the bytes, or 0 when the first byte starts none.
\<close>

definition utf8_size :: "string \<Rightarrow> nat" where
  "utf8_size s =
     (case s of
        [] \<Rightarrow> 0
      | p0 # t \<Rightarrow>
          (let x = byte p0;
               sz = (if 194 \<le> x \<and> x \<le> 223 then 2
                     else if 224 \<le> x \<and> x \<le> 239 then 3
                     else if 240 \<le> x \<and> x \<le> 244 then 4 else 0);
               lo = (if x = 224 then 160 else if x = 240 then 144 else 128);
               hi = (if x = 237 then 159 else if x = 244 then 143 else 191)
           in if sz = 0 \<or> length s < sz then 0
              else if \<not> inRange lo hi s 1 then 0
              else if sz = 2 then 2
              else if \<not> inRange 128 191 s 2 then 0
              else if sz = 3 then 3
              else if \<not> inRange 128 191 s 3 then 0
              else 4))"

definition simpleEscape :: "char \<Rightarrow> char option" where
  "simpleEscape e =
     (if e = dquote \<or> e = backslash \<or> e = CHR ''/'' \<or> e = CHR 0x27 then Some e
      else if e = CHR ''b'' then Some (CHR 0x08)
      else if e = CHR ''f'' then Some (CHR 0x0C)
      else if e = CHR ''n'' then Some LF
      else if e = CHR ''r'' then Some CR
      else if e = CHR ''t'' then Some TAB
      else None)"

fun unquoteBytes :: "string \<Rightarrow> string option" where
  "unquoteBytes [] = Some []"
| "unquoteBytes (c # cs) =
     (if c = backslash then
        (case cs of
           [] \<Rightarrow> None
         | e # es \<Rightarrow>
             if e = CHR ''u'' then
               (case getu4 es of
                  None \<Rightarrow> None
                | Some rr \<Rightarrow>
                    if IsSurrogate rr then
                      (case utf16_DecodeRune rr
                              (if strings_HasPrefix (drop 4 es) [backslash, CHR ''u'']
                               then getu4 (drop 6 es) else None) of
                         Some dec \<Rightarrow> map_option ((@) (EncodeRune dec)) (unquoteBytes (drop 10 es))
                       | None \<Rightarrow> map_option ((@) RuneError) (unquoteBytes (drop 4 es)))
                    else map_option ((@) (EncodeRune rr)) (unquoteBytes (drop 4 es)))
             else
               (case simpleEscape e of
                  None \<Rightarrow> None
                | Some x \<Rightarrow> map_option ((#) x) (unquoteBytes es)))
      else if c = dquote \<or> byte c < 32 then None
      else if byte c < 128 then map_option ((#) c) (unquoteBytes cs)
      else
        (let n = utf8_size (c # cs)
         in if n = 0 then map_option ((@) RuneError) (unquoteBytes cs)
            else map_option ((@) (take n (c # cs))) (unquoteBytes (drop (n - 1) cs))))"

text \<open>
  The decoder reads an input that the scanner has accepted. Its tokens: the
  punctuation, the string literals (the bytes between the quotes) and the other
  literals (numbers, \<open>true\<close>, \<open>false\<close>, \<open>null\<close>).
\<close>

datatype token =
    TBeginObject | TEndObject | TBeginArray | TEndArray | TColon | TComma
  | TString string | TLiteral string

fun tokens :: "string \<Rightarrow> token list"
  and tokens_string :: "string \<Rightarrow> string \<Rightarrow> token list"
  and tokens_literal :: "string \<Rightarrow> string \<Rightarrow> token list" where
  "tokens [] = []"
| "tokens (c # cs) =
     (if isSpace c then tokens cs
      else if c = CHR ''{'' then TBeginObject # tokens cs
      else if c = CHR ''}'' then TEndObject # tokens cs
      else if c = CHR ''['' then TBeginArray # tokens cs
      else if c = CHR '']'' then TEndArray # tokens cs
      else if c = CHR '':'' then TColon # tokens cs
      else if c = CHR '','' then TComma # tokens cs
      else if c = dquote then tokens_string [] cs
      else tokens_literal [c] cs)"
| "tokens_string acc [] = [TString (rev acc)]"
| "tokens_string acc [c] = (if c = dquote then [TString (rev acc)] else [TString (rev (c # acc))])"
| "tokens_string acc (c # d # cs) =
     (if c = dquote then TString (rev acc) # tokens (d # cs)
      else if c = backslash then tokens_string (d # c # acc) cs
      else tokens_string (c # acc) (d # cs))"
| "tokens_literal acc [] = [TLiteral (rev acc)]"
| "tokens_literal acc (c # cs) =
     (if isSpace c \<or> c \<in> set '',]}'' then TLiteral (rev acc) # tokens (c # cs)
      else tokens_literal (c # acc) cs)"

datatype json =
    JNull | JBool bool | JNumber string | JString string
  | JArray "json list" | JObject "(string \<times> json) list"

text \<open>
  The values are built with a stack of the arrays and objects that are still open; an
  open object holds the key that waits for its value.
\<close>

datatype frame = FArray "json list" | FObject "(string \<times> json) list" "string option"

definition literalValue :: "string \<Rightarrow> json" where
  "literalValue l =
     (if l = ''null'' then JNull
      else if l = ''true'' then JBool True
      else if l = ''false'' then JBool False
      else JNumber l)"

fun addValue :: "json \<Rightarrow> frame list \<Rightarrow> (frame list \<times> json option) option" where
  "addValue v [] = Some ([], Some v)"
| "addValue v (FArray vs # st) = Some (FArray (vs @ [v]) # st, None)"
| "addValue v (FObject kvs (Some k) # st) = Some (FObject (kvs @ [(k, v)]) None # st, None)"
| "addValue v (FObject kvs None # st) = None"

fun buildValue :: "token list \<Rightarrow> frame list \<Rightarrow> json option" where
  "buildValue [] st = None"
| "buildValue (t # ts) st =
     (case (case t of
              TBeginObject \<Rightarrow> Some (FObject [] None # st, None)
            | TBeginArray \<Rightarrow> Some (FArray [] # st, None)
            | TColon \<Rightarrow> Some (st, None)
            | TComma \<Rightarrow> Some (st, None)
            | TEndObject \<Rightarrow>
                (case st of FObject kvs None # st' \<Rightarrow> addValue (JObject kvs) st' | _ \<Rightarrow> None)
            | TEndArray \<Rightarrow>
                (case st of FArray vs # st' \<Rightarrow> addValue (JArray vs) st' | _ \<Rightarrow> None)
            | TLiteral l \<Rightarrow> addValue (literalValue l) st
            | TString raw \<Rightarrow>
                (case unquoteBytes raw of
                   None \<Rightarrow> None
                 | Some s \<Rightarrow>
                     (case st of
                        FObject kvs None # st' \<Rightarrow> Some (FObject kvs (Some s) # st', None)
                      | _ \<Rightarrow> addValue (JString s) st))) of
        None \<Rightarrow> None
      | Some (st', Some v) \<Rightarrow> (if ts = [] then Some v else None)
      | Some (st', None) \<Rightarrow> buildValue ts st')"

definition decodeValue :: "string \<Rightarrow> json option" where
  "decodeValue data = buildValue (tokens data) []"

text \<open>
  Decoding into the struct \<open>jibJSON\<close>, whose fields are strings named \<open>image\<close> and
  \<open>project\<close> in JSON. A key selects the field it is equal to, or else the field it is
  equal to when the case of the letters is ignored; other keys are skipped. A string is
  stored, \<open>null\<close> leaves the field as it is, any other value is a type error, of which
  the first is returned after the whole object has been decoded.
\<close>

record jibJSON =
  json_Image :: string
  json_Project :: string

definition valueKind :: "json \<Rightarrow> string" where
  "valueKind v =
     (case v of
        JNull \<Rightarrow> ''null'' | JBool b \<Rightarrow> ''bool'' | JNumber n \<Rightarrow> ''number''
      | JString s \<Rightarrow> ''string'' | JArray vs \<Rightarrow> ''array'' | JObject kvs \<Rightarrow> ''object'')"

definition foldByte :: "char \<Rightarrow> char" where
  "foldByte c = (if 97 \<le> byte c \<and> byte c \<le> 122 then char_of (byte c - 32) else c)"

definition equalFold :: "string \<Rightarrow> string \<Rightarrow> bool" where
  "equalFold name key = (map foldByte name = map foldByte key)"

definition fieldOf :: "string \<Rightarrow> string option" where
  "fieldOf key =
     (if key = ''image'' then Some ''Image''
      else if key = ''project'' then Some ''Project''
      else if equalFold ''image'' key then Some ''Image''
      else if equalFold ''project'' key then Some ''Project''
      else None)"

definition storeString :: "json \<Rightarrow> string \<Rightarrow> string \<Rightarrow> json_error option \<Rightarrow> string \<times> json_error option" where
  "storeString v field old saved =
     (case v of
        JString s \<Rightarrow> (s, saved)
      | JNull \<Rightarrow> (old, saved)
      | _ \<Rightarrow> (old, if saved = None then Some (UnmarshalTypeError (valueKind v) field) else saved))"

fun decodeObject :: "(string \<times> json) list \<Rightarrow> jibJSON \<Rightarrow> json_error option \<Rightarrow> jibJSON \<times> json_error option" where
  "decodeObject [] v saved = (v, saved)"
| "decodeObject ((key, x) # kvs) v saved =
     (case fieldOf key of
        None \<Rightarrow> decodeObject kvs v saved
      | Some field \<Rightarrow>
          if field = ''Image'' then
            (case storeString x field (json_Image v) saved of
               (s, saved') \<Rightarrow> decodeObject kvs (v\<lparr>json_Image := s\<rparr>) saved')
          else
            (case storeString x field (json_Project v) saved of
               (s, saved') \<Rightarrow> decodeObject kvs (v\<lparr>json_Project := s\<rparr>) saved'))"

definition json_Unmarshal :: "string \<Rightarrow> jibJSON \<Rightarrow> json_error + jibJSON" where
  "json_Unmarshal data v =
     (if \<not> checkValid data then Inl SyntaxError
      else (case decodeValue data of
              None \<Rightarrow> Inl SyntaxError
            | Some (JObject kvs) \<Rightarrow>
                (case decodeObject kvs v None of
                   (v', None) \<Rightarrow> Inr v'
                 | (v', Some err) \<Rightarrow> Inl err)
            | Some JNull \<Rightarrow> Inr v
            | Some x \<Rightarrow> Inl (UnmarshalTypeError (valueKind x) '''')))"

section \<open>Detection of Jib projects\<close>

datatype PluginType = JibMaven | JibGradle

record Jib =
  BuilderName :: string
  Image :: string
  FilePath :: string
  Project :: string

text \<open>
  The file system, the command runner, \<open>filepath.Dir\<close> and \<open>PluginName\<close> (of the package's
  other file) are parameters.
\<close>

record JibWorld =
  ReadFile :: "string \<Rightarrow> error + string"
  AbsFile :: "string \<Rightarrow> string \<Rightarrow> error + string"
  filepath_Dir :: "string \<Rightarrow> string"
  RunCmdOut :: "Cmd \<Rightarrow> error + string"
  PluginName :: "PluginType \<Rightarrow> string"

record JibTool =
  builderType :: PluginType
  executable :: string
  wrapper :: string
  searchString :: string
  taskName :: string

definition jibTool :: "string \<Rightarrow> JibTool option" where
  "jibTool path =
     (if strings_HasSuffix path ''pom.xml'' then
        Some \<lparr>builderType = JibMaven, executable = ''mvn'', wrapper = ''mvnw'',
              searchString = ''<artifactId>jib-maven-plugin</artifactId>'',
              taskName = ''jib:_skaffold-init''\<rparr>
      else if strings_HasSuffix path ''build.gradle'' \<or> strings_HasSuffix path ''build.gradle.kts'' then
        Some \<lparr>builderType = JibGradle, executable = ''gradle'', wrapper = ''gradlew'',
              searchString = ''com.google.cloud.tools.jib'',
              taskName = ''_jibSkaffoldInit''\<rparr>
      else None)"

text \<open>
  The regular expression \<open>BEGIN JIB JSON\r?\n({.*})\<close> at the head of the bytes: the
  marker, an optional carriage return, a line feed, and on the next line an opening
  brace with all that follows up to the last closing brace of that line (\<open>.\<close> matches
  every byte but the line feed, \<open>*\<close> is greedy). The result is the group and the bytes
  after the match.
\<close>

definition matchJibJSON :: "string \<Rightarrow> (string \<times> string) option" where
  "matchJibJSON s =
     (if strings_HasPrefix s ''BEGIN JIB JSON'' then
        (let r1 = drop 14 s;
             r2 = (case r1 of [] \<Rightarrow> [] | c # t \<Rightarrow> if c = CR then t else r1)
         in case r2 of
              n # b # t \<Rightarrow>
                if n = LF \<and> b = CHR ''{'' then
                  (let line = takeWhile (\<lambda>c. c \<noteq> LF) t;
                       body = rev (dropWhile (\<lambda>c. c \<noteq> CHR ''}'') (rev line))
                   in if body = [] then None
                      else Some (CHR ''{'' # body, drop (length body) t))
                else None
            | _ \<Rightarrow> None)
      else None)"

text \<open>
  \<open>FindAllSubmatch\<close>: the matches from left to right, each search starting where the
  last match ended; of each match, the group.
\<close>

function FindAllSubmatch :: "string \<Rightarrow> string list" where
  "FindAllSubmatch s =
     (case matchJibJSON s of
        Some (group1, rest) \<Rightarrow> group1 # FindAllSubmatch rest
      | None \<Rightarrow> (case s of [] \<Rightarrow> [] | c # cs \<Rightarrow> FindAllSubmatch cs))"
  by pat_completeness auto
termination
proof (relation "measure length")
  show "wf (measure length)" by simp
next
  fix s :: string and x2 x y
  assume "matchJibJSON s = Some x2" and "(x, y) = x2"
  then have "matchJibJSON s = Some (x, y)" by simp
  moreover have "length r < length s" if "drop 14 s = a # r" for a :: char and r
  proof -
    have "length (drop 14 s) \<le> length s" by simp
    with that show ?thesis by simp
  qed
  ultimately have "length y < length s"
    by (fastforce simp: matchJibJSON_def Let_def split: if_splits list.splits)
  then show "(y, s) \<in> measure length" by simp
next
  fix s :: string and c cs
  assume "s = c # cs"
  then show "(cs, s) \<in> measure length" by simp
qed

declare FindAllSubmatch.simps [simp del]

text \<open>\<open>bytes.Replace(s, old, new, -1)\<close> for an \<open>old\<close> of one byte.\<close>

fun bytes_Replace :: "string \<Rightarrow> char \<Rightarrow> string \<Rightarrow> string" where
  "bytes_Replace [] old new = []"
| "bytes_Replace (c # cs) old new =
     (if c = old then new @ bytes_Replace cs old new else c # bytes_Replace cs old new)"

text \<open>The loop over the matches: the first payload that does not parse ends it.\<close>

fun parseJibMatches :: "string \<Rightarrow> string \<Rightarrow> string list \<Rightarrow> json_error + Jib list" where
  "parseJibMatches name path [] = Inr []"
| "parseJibMatches name path (m # ms) =
     (let line = bytes_Replace m backslash [backslash, backslash]
      in case json_Unmarshal line \<lparr>json_Image = '''', json_Project = ''''\<rparr> of
           Inl err \<Rightarrow> Inl err
         | Inr parsedJSON \<Rightarrow>
             (case parseJibMatches name path ms of
                Inl err \<Rightarrow> Inl err
              | Inr results \<Rightarrow>
                  Inr (\<lparr>BuilderName = name, Image = json_Image parsedJSON,
                         FilePath = path, Project = json_Project parsedJSON\<rparr> # results)))"

definition ValidateJibConfig :: "JibWorld \<Rightarrow> string \<Rightarrow> Jib list \<times> event list" where
  "ValidateJibConfig w path =
     (case jibTool path of
        None \<Rightarrow> ([], [])
      | Some tool \<Rightarrow>
          (case ReadFile w path of
             Inl err \<Rightarrow> ([], [])
           | Inr content \<Rightarrow>
               if \<not> strings_Contains content (searchString tool) then ([], [])
               else
                 (let exe = (case AbsFile w (filepath_Dir w path) (wrapper tool) of
                               Inr wrapperExecutable \<Rightarrow> wrapperExecutable
                             | Inl err \<Rightarrow> executable tool);
                      cmd = \<lparr>Path = exe, Args = [exe, taskName tool, ''-q''], Env = None,
                             Dir = filepath_Dir w path\<rparr>
                  in case RunCmdOut w cmd of
                       Inl err \<Rightarrow> ([], [Call_RunCmdOut cmd])
                     | Inr stdout \<Rightarrow>
                         (let matches = FindAllSubmatch stdout
                          in if length matches = 0 then ([], [Call_RunCmdOut cmd])
                             else
                               (case parseJibMatches (PluginName w (builderType tool)) path matches of
                                  Inl err \<Rightarrow>
                                    ([], [Call_RunCmdOut cmd,
                                          Log_Warnf ''failed to parse jib json: %s'' err])
                                | Inr results \<Rightarrow> (results, [Call_RunCmdOut cmd]))))))"

section \<open>Example inputs\<close>

text \<open>Concrete builders, artifacts and worlds, on which the theorems below are run.\<close>

definition example_docker :: DockerPkg where
  "example_docker =
     \<lparr>NormalizeDockerfilePath = (\<lambda>workspace path. Inr (workspace @ ''/'' @ path)),
      GetBuildArgs =
        (\<lambda>a. map (\<lambda>(k, v). ''--build-arg='' @ k @ (case v of None \<Rightarrow> [] | Some x \<Rightarrow> ''='' @ x))
               (BuildArgs a)),
      FullRemoteReference = (\<lambda>fqn. (fqn @ ''@sha256:0'', None))\<rparr>"

definition example_artifact :: Artifact where
  "example_artifact =
     \<lparr>ImageName = ''app'', Workspace = ''.'',
      DockerArtifact = Some \<lparr>DockerfilePath = ''Dockerfile'', BuildArgs = [(''K'', Some ''v'')]\<rparr>,
      BazelArtifact = None, JibMavenArtifact = None, JibGradleArtifact = None\<rparr>"

definition example_local :: LocalBuilder where
  "example_local =
     \<lparr>cfg_UseDockerCLI = False, cfg_UseBuildkit = False, pushImages = True,
      docker = example_docker, os_Environ = [''HOME=/root''],
      RunCmd = (\<lambda>cmd. None),
      localDocker_Build = (\<lambda>workspace a fqn. Inr ''sha256:1d''),
      localDocker_Push = (\<lambda>fqn. Inr ''sha256:abc''),
      buildBazel = (\<lambda>workspace a fqn. (''bazel:'' @ fqn, None)),
      buildJibMaven = (\<lambda>workspace a fqn. (''maven:'' @ fqn, None)),
      buildJibGradle = (\<lambda>workspace a fqn. (''gradle:'' @ fqn, None)),
      fmt_ArtifactType = (\<lambda>a. ''{}'')\<rparr>"

definition example_builder :: KanikoBuilder where
  "example_builder =
     \<lparr>AdditionalFlags = [''--insecure''], Cache = Some \<lparr>Repo = ''gcr.io/k/cache''\<rparr>,
      Namespace = ''default''\<rparr>"

definition example_world :: KanikoWorld where
  "example_world =
     \<lparr>setupSecret = None,
      InParallel = (\<lambda>build artifacts. (Return ([], None), [])),
      s_Setup = (\<lambda>artifact fqn. Inr ''gs://bucket/context.tar.gz''),
      GetClientset = None,
      logLevel = ''info'',
      dockerpkg = example_docker,
      pods_Create = (\<lambda>args. Inr ''kaniko-1''),
      pods_Delete = (\<lambda>p. None),
      s_ModifyPod = (\<lambda>p. None),
      WaitForPodComplete = (\<lambda>p. None)\<rparr>"

text \<open>
  A world for the detection of Jib: three build files, a Maven wrapper beside the first,
  and a build tool that prints \<open>out\<close>.
\<close>

definition example_Dir :: "string \<Rightarrow> string" where
  "example_Dir path = rev (drop 1 (dropWhile (\<lambda>c. c \<noteq> CHR ''/'') (rev path)))"

definition example_jib_world :: "string \<Rightarrow> JibWorld" where
  "example_jib_world out =
     \<lparr>ReadFile = (\<lambda>path.
        if path = ''app/pom.xml''
        then Inr ''<plugin><artifactId>jib-maven-plugin</artifactId></plugin>''
        else if path = ''lib/pom.xml'' then Inr ''<project></project>''
        else if path = ''web/build.gradle'' then Inr ''apply plugin: java''
        else Inl (New ''no such file'')),
      AbsFile = (\<lambda>dir name.
        if dir = ''app'' \<and> name = ''mvnw'' then Inr ''/src/app/mvnw''
        else Inl (New ''not found'')),
      filepath_Dir = example_Dir,
      RunCmdOut = (\<lambda>cmd. Inr out),
      PluginName = (\<lambda>t. case t of JibMaven \<Rightarrow> ''Jib Maven Plugin''
                               | JibGradle \<Rightarrow> ''Jib Gradle Plugin'')\<rparr>"

definition example_mvnw :: Cmd where
  "example_mvnw =
     \<lparr>Path = ''/src/app/mvnw'', Args = [''/src/app/mvnw'', ''jib:_skaffold-init'', ''-q''],
      Env = None, Dir = ''app''\<rparr>"

text \<open>
  The JSON object that Jib prints for a module: \<open>{"image":"...","project":"..."}\<close>, with
  the two strings as they stand between the quotes.
\<close>

definition quoted :: "string \<Rightarrow> string" where
  "quoted s = dquote # s @ [dquote]"

definition jibPayload :: "string \<Rightarrow> string \<Rightarrow> string" where
  "jibPayload img proj =
     ''{'' @ quoted ''image'' @ '':'' @ quoted img @ '','' @ quoted ''project'' @ '':''
     @ quoted proj @ ''}''"

definition two_modules_output :: string where
  "two_modules_output =
     ''BEGIN JIB JSON\<newline>'' @ jibPayload ''a'' ''p1'' @ ''\<newline>''
     @ ''BEGIN JIB JSON\<newline>'' @ jibPayload ''b'' ''p2'' @ ''\<newline>''"

definition broken_module_output :: string where
  "broken_module_output =
     ''BEGIN JIB JSON\<newline>'' @ jibPayload ''a'' ''p1'' @ ''\<newline>''
     @ ''BEGIN JIB JSON\<newline>{image: b}\<newline>''"

text \<open>
  Two payloads with an escape sequence of JSON in the image: \<open>a\"b\<close>, which stands for
  \<open>a"b\<close>, and \<open>C:\\app\<close>, which stands for \<open>C:\app\<close>.
\<close>

definition escaped_quote_payload :: string where
  "escaped_quote_payload = jibPayload [CHR ''a'', backslash, dquote, CHR ''b''] ''p''"

definition escaped_backslash_payload :: string where
  "escaped_backslash_payload = jibPayload (''C:'' @ [backslash, backslash] @ ''app'') ''p''"

definition jibJSON_zero :: jibJSON where
  "jibJSON_zero = \<lparr>json_Image = '''', json_Project = ''''\<rparr>"

text \<open>
  Strings of printable ASCII characters other than the double quote (the backslash is
  one of them), and the three fixed parts of a payload around its two strings.
\<close>

definition verbatim :: "string \<Rightarrow> bool" where
  "verbatim s = list_all (\<lambda>c. 32 \<le> byte c \<and> byte c < 128 \<and> c \<noteq> dquote) s"

definition payload_head :: string where
  "payload_head = ''{'' @ dquote # ''image'' @ dquote # '':'' @ [dquote]"

definition payload_middle :: string where
  "payload_middle = dquote # '','' @ dquote # ''project'' @ dquote # '':'' @ [dquote]"

definition payload_tail :: string where
  "payload_tail = dquote # ''}''"

definition scanner_inString :: scanner where
  "scanner_inString =
     \<lparr>step = stateInString, parseState = [parseObjectValue], endTop = False\<rparr>"

section \<open>The string functions are the ones of Go\<close>

lemma strings_HasPrefix_iff: "strings_HasPrefix s p \<longleftrightarrow> (\<exists>t. s = p @ t)"
  by (induction s p rule: strings_HasPrefix.induct) auto

lemma strings_HasSuffix_iff: "strings_HasSuffix s p \<longleftrightarrow> (\<exists>t. s = t @ p)"
proof -
  have "(\<exists>t. rev s = rev p @ t) \<longleftrightarrow> (\<exists>t. s = t @ p)"
  proof
    assume "\<exists>t. rev s = rev p @ t"
    then obtain t where "rev s = rev p @ t" ..
    then have "rev (rev s) = rev (rev p @ t)" by simp
    then have "s = rev t @ p" by simp
    then show "\<exists>t. s = t @ p" ..
  next
    assume "\<exists>t. s = t @ p"
    then obtain t where "s = t @ p" ..
    then have "rev s = rev p @ rev t" by simp
    then show "\<exists>t. rev s = rev p @ t" ..
  qed
  then show ?thesis
    by (simp add: strings_HasSuffix_def strings_HasPrefix_iff)
qed

lemma strings_Contains_iff: "strings_Contains s sub \<longleftrightarrow> (\<exists>a b. s = a @ sub @ b)"
proof (induction s)
  case Nil
  then show ?case by auto
next
  case (Cons c cs)
  show ?case
  proof
    assume "strings_Contains (c # cs) sub"
    then consider "strings_HasPrefix (c # cs) sub" | "strings_Contains cs sub" by auto
    then show "\<exists>a b. c # cs = a @ sub @ b"
    proof cases
      case 1
      then obtain t where "c # cs = sub @ t" by (auto simp: strings_HasPrefix_iff)
      then have "c # cs = [] @ sub @ t" by simp
      then show ?thesis by blast
    next
      case 2
      with Cons.IH obtain a b where "cs = a @ sub @ b" by auto
      then have "c # cs = (c # a) @ sub @ b" by simp
      then show ?thesis by blast
    qed
  next
    assume "\<exists>a b. c # cs = a @ sub @ b"
    then obtain a b where ab: "c # cs = a @ sub @ b" by auto
    show "strings_Contains (c # cs) sub"
    proof (cases a)
      case Nil
      with ab have "strings_HasPrefix (c # cs) sub" by (auto simp: strings_HasPrefix_iff)
      then show ?thesis by simp
    next
      case (Cons x a')
      with ab have "cs = a' @ sub @ b" by simp
      with Cons.IH have "strings_Contains cs sub" by blast
      then show ?thesis by simp
    qed
  qed
qed

section \<open>Backend dispatch and the local Docker build\<close>

text \<open>
  C5: an artifact none of whose four artifact types is set gets the empty reference and
  an error whose text contains \<open>undefined artifact type\<close>; an artifact with a type set
  gets exactly the result of that type's backend (of the first in the order Docker,
  Bazel, Jib Maven, Jib Gradle).
\<close>

theorem buildArtifactLocally_dispatch:
  "(DockerArtifact a = Some d \<longrightarrow>
      buildArtifactLocally b a fqn = buildDocker b (Workspace a) d fqn) \<and>
   (DockerArtifact a = None \<and> BazelArtifact a = Some z \<longrightarrow>
      buildArtifactLocally b a fqn = buildBazel b (Workspace a) z fqn) \<and>
   (DockerArtifact a = None \<and> BazelArtifact a = None \<and> JibMavenArtifact a = Some m \<longrightarrow>
      buildArtifactLocally b a fqn = buildJibMaven b (Workspace a) m fqn) \<and>
   (DockerArtifact a = None \<and> BazelArtifact a = None \<and> JibMavenArtifact a = None \<and>
    JibGradleArtifact a = Some g \<longrightarrow>
      buildArtifactLocally b a fqn = buildJibGradle b (Workspace a) g fqn) \<and>
   (DockerArtifact a = None \<and> BazelArtifact a = None \<and> JibMavenArtifact a = None \<and>
    JibGradleArtifact a = None \<longrightarrow>
      fst (buildArtifactLocally b a fqn) = '''' \<and>
      (\<exists>err. snd (buildArtifactLocally b a fqn) = Some err \<and>
             strings_Contains (Error err) ''undefined artifact type''))"
proof -
  have "strings_Contains (''undefined artifact type: '' @ x) ''undefined artifact type''" for x
    unfolding strings_Contains_iff
    by (rule exI [of _ "[]"], rule exI [of _ "'': '' @ x"]) simp
  then show ?thesis
    by (simp add: buildArtifactLocally_def fmt_Errorf_def)
qed

theorem buildArtifactLocally_dispatch_witness:
  "buildArtifactLocally example_local example_artifact ''app:v1'' = (''app:v1@sha256:abc'', None) \<and>
   buildArtifactLocally example_local
     (example_artifact\<lparr>DockerArtifact := None, BazelArtifact := Some \<lparr>BuildTarget = ''//:app.tar''\<rparr>\<rparr>)
     ''app:v1'' = (''bazel:app:v1'', None) \<and>
   buildArtifactLocally example_local
     (example_artifact\<lparr>DockerArtifact := None, JibMavenArtifact := Some \<lparr>MavenProject = ''web''\<rparr>\<rparr>)
     ''app:v1'' = (''maven:app:v1'', None) \<and>
   buildArtifactLocally example_local
     (example_artifact\<lparr>DockerArtifact := None, JibGradleArtifact := Some \<lparr>GradleProject = ''web''\<rparr>\<rparr>)
     ''app:v1'' = (''gradle:app:v1'', None) \<and>
   buildArtifactLocally example_local (example_artifact\<lparr>DockerArtifact := None\<rparr>) ''app:v1''
     = ('''', Some (New ''undefined artifact type: {}''))"
  using buildArtifactLocally_dispatch [where b = example_local and fqn = "''app:v1''"
          and a = example_artifact
          and d = "\<lparr>DockerfilePath = ''Dockerfile'', BuildArgs = [(''K'', Some ''v'')]\<rparr>"]
        buildArtifactLocally_dispatch [where b = example_local and fqn = "''app:v1''"
          and a = "example_artifact\<lparr>DockerArtifact := None, BazelArtifact := Some \<lparr>BuildTarget = ''//:app.tar''\<rparr>\<rparr>"
          and z = "\<lparr>BuildTarget = ''//:app.tar''\<rparr>"]
        buildArtifactLocally_dispatch [where b = example_local and fqn = "''app:v1''"
          and a = "example_artifact\<lparr>DockerArtifact := None, JibMavenArtifact := Some \<lparr>MavenProject = ''web''\<rparr>\<rparr>"
          and m = "\<lparr>MavenProject = ''web''\<rparr>"]
        buildArtifactLocally_dispatch [where b = example_local and fqn = "''app:v1''"
          and a = "example_artifact\<lparr>DockerArtifact := None, JibGradleArtifact := Some \<lparr>GradleProject = ''web''\<rparr>\<rparr>"
          and g = "\<lparr>GradleProject = ''web''\<rparr>"]
        buildArtifactLocally_dispatch [where b = example_local and fqn = "''app:v1''"
          and a = "example_artifact\<lparr>DockerArtifact := None\<rparr>"]
  by (simp add: example_artifact_def example_local_def buildDocker_def runDockerBuild_def
        buildArtifactLocally_def fmt_Errorf_def)

text \<open>
  C6: when the local Docker build returns no error, the reference it returns is the
  target reference followed by \<open>@\<close> and the digest that the push returned if pushing
  is enabled, and the target reference itself if it is not.
\<close>

theorem buildDocker_reference:
  assumes "snd (buildDocker b workspace a fqn) = None"
  shows "(pushImages b \<longrightarrow>
            (\<exists>digest. localDocker_Push b fqn = Inr digest \<and>
                      fst (buildDocker b workspace a fqn) = fqn @ ''@'' @ digest)) \<and>
         (\<not> pushImages b \<longrightarrow> fst (buildDocker b workspace a fqn) = fqn)"
  using assms
  by (auto simp: buildDocker_def split: option.splits sum.splits if_splits)

theorem buildDocker_reference_witness:
  "snd (buildDocker example_local ''.'' \<lparr>DockerfilePath = ''Dockerfile'', BuildArgs = []\<rparr> ''app:v1'') = None \<and>
   fst (buildDocker example_local ''.'' \<lparr>DockerfilePath = ''Dockerfile'', BuildArgs = []\<rparr> ''app:v1'')
     = ''app:v1@sha256:abc'' \<and>
   snd (buildDocker (example_local\<lparr>pushImages := False, cfg_UseDockerCLI := True\<rparr>) ''.''
          \<lparr>DockerfilePath = ''Dockerfile'', BuildArgs = []\<rparr> ''app:v1'') = None \<and>
   fst (buildDocker (example_local\<lparr>pushImages := False, cfg_UseDockerCLI := True\<rparr>) ''.''
          \<lparr>DockerfilePath = ''Dockerfile'', BuildArgs = []\<rparr> ''app:v1'') = ''app:v1''"
proof -
  let ?a = "\<lparr>DockerfilePath = ''Dockerfile'', BuildArgs = []\<rparr>"
  let ?b = "example_local\<lparr>pushImages := False, cfg_UseDockerCLI := True\<rparr>"
  have h1: "snd (buildDocker example_local ''.'' ?a ''app:v1'') = None"
    by (simp add: example_local_def buildDocker_def runDockerBuild_def)
  have h2: "snd (buildDocker ?b ''.'' ?a ''app:v1'') = None"
    by (simp add: example_local_def example_docker_def buildDocker_def runDockerBuild_def)
  show ?thesis
    using h1 h2 buildDocker_reference [OF h1] buildDocker_reference [OF h2]
    by (simp add: example_local_def)
qed

section \<open>The remote build session\<close>

lemmas kaniko_defs =
  buildArtifactWithKaniko_def runPod_def deletePod_def go_defer_def after_def errors_Wrap_def

text \<open>
  C4: the arguments with which the pod is created are, in this order, the Dockerfile
  path, the context, the destination and the log level, then the additional flags of
  the configuration, then the build arguments, then, if a cache is configured,
  \<open>--cache=true\<close>, followed by \<open>--cache-repo=\<close> and the repository if that is not empty.
\<close>

theorem kaniko_pod_args:
  assumes "Call_Create args \<in> set (snd (buildArtifactWithKaniko b w artifact fqn))"
  shows "\<exists>d context.
           DockerArtifact artifact = Some d \<and> s_Setup w artifact fqn = Inr context \<and>
           args = [''--dockerfile='' @ DockerfilePath d, ''--context='' @ context,
                   ''--destination='' @ fqn, ''-v='' @ logLevel w]
                  @ AdditionalFlags b @ GetBuildArgs (dockerpkg w) d
                  @ (case Cache b of
                       None \<Rightarrow> []
                     | Some c \<Rightarrow>
                         ''--cache=true'' #
                         (if Repo c = '''' then [] else [''--cache-repo='' @ Repo c]))"
  using assms
  by (auto simp: kaniko_defs kanikoArgs_def Let_def
           split: sum.splits option.splits if_splits prod.splits outcome.splits)

theorem kaniko_pod_args_witness:
  "Call_Create [''--dockerfile=Dockerfile'', ''--context=gs://bucket/context.tar.gz'',
                ''--destination=gcr.io/k/app:v1'', ''-v=info'', ''--insecure'',
                ''--build-arg=K=v'', ''--cache=true'', ''--cache-repo=gcr.io/k/cache'']
     \<in> set (snd (buildArtifactWithKaniko example_builder example_world example_artifact
                    ''gcr.io/k/app:v1'')) \<and>
   (\<exists>d context.
      DockerArtifact example_artifact = Some d \<and>
      s_Setup example_world example_artifact ''gcr.io/k/app:v1'' = Inr context \<and>
      [''--dockerfile=Dockerfile'', ''--context=gs://bucket/context.tar.gz'',
       ''--destination=gcr.io/k/app:v1'', ''-v=info'', ''--insecure'',
       ''--build-arg=K=v'', ''--cache=true'', ''--cache-repo=gcr.io/k/cache'']
      = [''--dockerfile='' @ DockerfilePath d, ''--context='' @ context,
         ''--destination='' @ ''gcr.io/k/app:v1'', ''-v='' @ logLevel example_world]
        @ AdditionalFlags example_builder @ GetBuildArgs (dockerpkg example_world) d
        @ (case Cache example_builder of
             None \<Rightarrow> []
           | Some c \<Rightarrow>
               ''--cache=true'' # (if Repo c = '''' then [] else [''--cache-repo='' @ Repo c])))"
proof -
  have h: "Call_Create [''--dockerfile=Dockerfile'', ''--context=gs://bucket/context.tar.gz'',
                ''--destination=gcr.io/k/app:v1'', ''-v=info'', ''--insecure'',
                ''--build-arg=K=v'', ''--cache=true'', ''--cache-repo=gcr.io/k/cache'']
     \<in> set (snd (buildArtifactWithKaniko example_builder example_world example_artifact
                    ''gcr.io/k/app:v1''))"
    by (simp add: kaniko_defs kanikoArgs_def example_builder_def example_world_def
          example_artifact_def example_docker_def)
  from h kaniko_pod_args [OF h] show ?thesis by (rule conjI)
qed

text \<open>
  C1, as the code has it: when the deletion of the pod fails, the failure is logged
  with \<open>logrus.Fatalf\<close> as \<open>deleting pod: %s\<close>, the last thing the session does, and the
  process ends there: the session returns no result to its caller.
\<close>

theorem pod_deletion_failure_is_fatal:
  assumes "Call_Delete p \<in> set (snd (buildArtifactWithKaniko b w artifact fqn))"
    and "pods_Delete w p = Some err"
  shows "fst (buildArtifactWithKaniko b w artifact fqn) = Exit \<and>
         last (snd (buildArtifactWithKaniko b w artifact fqn)) = Log_Fatalf ''deleting pod: %s'' err"
  using assms
  by (auto simp: kaniko_defs Let_def
           split: sum.splits option.splits if_splits prod.splits outcome.splits)

theorem pod_deletion_failure_is_fatal_witness:
  "Call_Delete ''kaniko-1''
     \<in> set (snd (buildArtifactWithKaniko example_builder
                    (example_world\<lparr>pods_Delete := (\<lambda>p. Some (New ''forbidden''))\<rparr>)
                    example_artifact ''gcr.io/k/app:v1'')) \<and>
   pods_Delete (example_world\<lparr>pods_Delete := (\<lambda>p. Some (New ''forbidden''))\<rparr>) ''kaniko-1''
     = Some (New ''forbidden'') \<and>
   fst (buildArtifactWithKaniko example_builder
          (example_world\<lparr>pods_Delete := (\<lambda>p. Some (New ''forbidden''))\<rparr>)
          example_artifact ''gcr.io/k/app:v1'') = Exit \<and>
   last (snd (buildArtifactWithKaniko example_builder
                (example_world\<lparr>pods_Delete := (\<lambda>p. Some (New ''forbidden''))\<rparr>)
                example_artifact ''gcr.io/k/app:v1''))
     = Log_Fatalf ''deleting pod: %s'' (New ''forbidden'')"
proof -
  let ?w = "example_world\<lparr>pods_Delete := (\<lambda>p. Some (New ''forbidden''))\<rparr>"
  have h1: "Call_Delete ''kaniko-1''
     \<in> set (snd (buildArtifactWithKaniko example_builder ?w example_artifact ''gcr.io/k/app:v1''))"
    by (simp add: kaniko_defs kanikoArgs_def example_builder_def example_world_def
          example_artifact_def example_docker_def)
  have h2: "pods_Delete ?w ''kaniko-1'' = Some (New ''forbidden'')"
    by simp
  from pod_deletion_failure_is_fatal [OF h1 h2] h1 h2 show ?thesis by simp
qed

text \<open>
  The build of the example succeeds, and the deletion of its pod fails: the session
  does not return the reference of the image that was built.
\<close>

theorem pod_deletion_failure_counterexample:
  "snd (runPod (example_world\<lparr>pods_Delete := (\<lambda>p. Some (New ''forbidden''))\<rparr>)
          ''kaniko-1'' ''gcr.io/k/app:v1'')
     = [Call_ModifyPod ''kaniko-1'', Call_streamLogs ''kaniko-1'',
        Call_WaitForPodComplete ''kaniko-1'', Call_waitForLogs ''kaniko-1''] \<and>
   fst (runPod (example_world\<lparr>pods_Delete := (\<lambda>p. Some (New ''forbidden''))\<rparr>)
          ''kaniko-1'' ''gcr.io/k/app:v1'')
     = Return (''gcr.io/k/app:v1@sha256:0'', None) \<and>
   fst (buildArtifactWithKaniko example_builder
          (example_world\<lparr>pods_Delete := (\<lambda>p. Some (New ''forbidden''))\<rparr>)
          example_artifact ''gcr.io/k/app:v1'')
     = Exit"
  by (simp add: kaniko_defs kanikoArgs_def example_builder_def example_world_def
        example_artifact_def example_docker_def)

text \<open>
  C2, as the code has it: the first phase that fails ends the session, and the error
  returned is that failure wrapped with \<open>setting up secret\<close>,
  \<open>setting up build context\<close>, \<open>creating kaniko pod\<close>, \<open>modifying kaniko pod\<close> or
  \<open>waiting for pod to complete\<close>. Once the pod exists its deletion is deferred, and
  the error is returned when that deletion succeeds. The events show that no later
  phase has run.
\<close>

theorem session_phase_errors:
  "(setupSecret w = Some e \<longrightarrow>
      Build b w artifacts = (Return ([], Some (errors_Wrap e ''setting up secret'')), [])) \<and>
   (s_Setup w artifact fqn = Inl e \<longrightarrow>
      buildArtifactWithKaniko b w artifact fqn
        = (Return ('''', Some (errors_Wrap e ''setting up build context'')), [])) \<and>
   (s_Setup w artifact fqn = Inr ctx \<and> GetClientset w = None \<and>
    DockerArtifact artifact = Some d \<and> pods_Create w (kanikoArgs b w d ctx fqn) = Inl e \<longrightarrow>
      buildArtifactWithKaniko b w artifact fqn
        = (Return ('''', Some (errors_Wrap e ''creating kaniko pod'')),
           [Call_Create (kanikoArgs b w d ctx fqn), Call_Cleanup])) \<and>
   (s_Setup w artifact fqn = Inr ctx \<and> GetClientset w = None \<and>
    DockerArtifact artifact = Some d \<and> pods_Create w (kanikoArgs b w d ctx fqn) = Inr p \<and>
    s_ModifyPod w p = Some e \<and> pods_Delete w p = None \<longrightarrow>
      buildArtifactWithKaniko b w artifact fqn
        = (Return ('''', Some (errors_Wrap e ''modifying kaniko pod'')),
           [Call_Create (kanikoArgs b w d ctx fqn), Call_ModifyPod p, Call_Delete p,
            Call_Cleanup])) \<and>
   (s_Setup w artifact fqn = Inr ctx \<and> GetClientset w = None \<and>
    DockerArtifact artifact = Some d \<and> pods_Create w (kanikoArgs b w d ctx fqn) = Inr p \<and>
    s_ModifyPod w p = None \<and> WaitForPodComplete w p = Some e \<and> pods_Delete w p = None \<longrightarrow>
      buildArtifactWithKaniko b w artifact fqn
        = (Return ('''', Some (errors_Wrap e ''waiting for pod to complete'')),
           [Call_Create (kanikoArgs b w d ctx fqn), Call_ModifyPod p, Call_streamLogs p,
            Call_WaitForPodComplete p, Call_Delete p, Call_Cleanup]))"
  by (simp add: Build_def kaniko_defs Let_def)

theorem session_phase_errors_witness:
  "Build example_builder (example_world\<lparr>setupSecret := Some (New ''denied'')\<rparr>) [example_artifact]
     = (Return ([], Some (Wrapped (New ''denied'') ''setting up secret'')), []) \<and>
   fst (buildArtifactWithKaniko example_builder
          (example_world\<lparr>s_Setup := (\<lambda>a fqn. Inl (New ''no bucket''))\<rparr>)
          example_artifact ''gcr.io/k/app:v1'')
     = Return ('''', Some (Wrapped (New ''no bucket'') ''setting up build context'')) \<and>
   fst (buildArtifactWithKaniko example_builder
          (example_world\<lparr>pods_Create := (\<lambda>args. Inl (New ''quota''))\<rparr>)
          example_artifact ''gcr.io/k/app:v1'')
     = Return ('''', Some (Wrapped (New ''quota'') ''creating kaniko pod'')) \<and>
   fst (buildArtifactWithKaniko example_builder
          (example_world\<lparr>s_ModifyPod := (\<lambda>p. Some (New ''copy failed''))\<rparr>)
          example_artifact ''gcr.io/k/app:v1'')
     = Return ('''', Some (Wrapped (New ''copy failed'') ''modifying kaniko pod'')) \<and>
   fst (buildArtifactWithKaniko example_builder
          (example_world\<lparr>WaitForPodComplete := (\<lambda>p. Some (New ''timeout''))\<rparr>)
          example_artifact ''gcr.io/k/app:v1'')
     = Return ('''', Some (Wrapped (New ''timeout'') ''waiting for pod to complete''))"
proof -
  let ?d = "\<lparr>DockerfilePath = ''Dockerfile'', BuildArgs = [(''K'', Some ''v'')]\<rparr>"
  let ?c = "''gs://bucket/context.tar.gz''"
  let ?f = "''gcr.io/k/app:v1''"
  note ex = example_world_def example_artifact_def errors_Wrap_def
  show ?thesis
    using session_phase_errors [where w = "example_world\<lparr>setupSecret := Some (New ''denied'')\<rparr>"
            and e = "New ''denied''" and b = example_builder and artifacts = "[example_artifact]"]
          session_phase_errors [where w = "example_world\<lparr>s_Setup := (\<lambda>a fqn. Inl (New ''no bucket''))\<rparr>"
            and e = "New ''no bucket''" and b = example_builder and artifact = example_artifact
            and fqn = "?f"]
          session_phase_errors [where w = "example_world\<lparr>pods_Create := (\<lambda>args. Inl (New ''quota''))\<rparr>"
            and e = "New ''quota''" and b = example_builder and artifact = example_artifact
            and fqn = "?f" and d = "?d" and ctx = "?c"]
          session_phase_errors [where w = "example_world\<lparr>s_ModifyPod := (\<lambda>p. Some (New ''copy failed''))\<rparr>"
            and e = "New ''copy failed''" and b = example_builder and artifact = example_artifact
            and fqn = "?f" and d = "?d" and ctx = "?c" and p = "''kaniko-1''"]
          session_phase_errors [where w = "example_world\<lparr>WaitForPodComplete := (\<lambda>p. Some (New ''timeout''))\<rparr>"
            and e = "New ''timeout''" and b = example_builder and artifact = example_artifact
            and fqn = "?f" and d = "?d" and ctx = "?c" and p = "''kaniko-1''"]
    by (simp add: ex)
qed

text \<open>
  A failure to create the pod is not wrapped with \<open>creating pod\<close>, and a failure to
  modify it is not wrapped with \<open>modifying pod\<close>.
\<close>

theorem session_phase_names_counterexample:
  "fst (buildArtifactWithKaniko example_builder
          (example_world\<lparr>pods_Create := (\<lambda>args. Inl (New ''quota''))\<rparr>)
          example_artifact ''gcr.io/k/app:v1'')
     \<noteq> Return ('''', Some (errors_Wrap (New ''quota'') ''creating pod'')) \<and>
   fst (buildArtifactWithKaniko example_builder
          (example_world\<lparr>s_ModifyPod := (\<lambda>p. Some (New ''copy failed''))\<rparr>)
          example_artifact ''gcr.io/k/app:v1'')
     \<noteq> Return ('''', Some (errors_Wrap (New ''copy failed'') ''modifying pod''))"
  by (simp add: kaniko_defs kanikoArgs_def example_builder_def example_world_def
        example_artifact_def example_docker_def)

text \<open>
  C3 on the path where the wait for the pod fails: the copy of the log has been
  started, the session returns the error of the wait, and between the two it has not
  waited for the copy to end. On the path where the wait succeeds it has.
\<close>

theorem wait_error_returns_without_waiting_for_logs:
  "buildArtifactWithKaniko example_builder
     (example_world\<lparr>WaitForPodComplete := (\<lambda>p. Some (New ''timeout''))\<rparr>)
     example_artifact ''gcr.io/k/app:v1''
   = (Return ('''', Some (Wrapped (New ''timeout'') ''waiting for pod to complete'')),
      [Call_Create (kanikoArgs example_builder example_world
                      \<lparr>DockerfilePath = ''Dockerfile'', BuildArgs = [(''K'', Some ''v'')]\<rparr>
                      ''gs://bucket/context.tar.gz'' ''gcr.io/k/app:v1''),
       Call_ModifyPod ''kaniko-1'', Call_streamLogs ''kaniko-1'',
       Call_WaitForPodComplete ''kaniko-1'', Call_Delete ''kaniko-1'', Call_Cleanup]) \<and>
   buildArtifactWithKaniko example_builder example_world example_artifact ''gcr.io/k/app:v1''
   = (Return (''gcr.io/k/app:v1@sha256:0'', None),
      [Call_Create (kanikoArgs example_builder example_world
                      \<lparr>DockerfilePath = ''Dockerfile'', BuildArgs = [(''K'', Some ''v'')]\<rparr>
                      ''gs://bucket/context.tar.gz'' ''gcr.io/k/app:v1''),
       Call_ModifyPod ''kaniko-1'', Call_streamLogs ''kaniko-1'',
       Call_WaitForPodComplete ''kaniko-1'', Call_waitForLogs ''kaniko-1'',
       Call_Delete ''kaniko-1'', Call_Cleanup])"
  by (simp add: kaniko_defs kanikoArgs_def example_builder_def example_world_def
        example_artifact_def example_docker_def)

section \<open>Detection of Jib projects: what the probe returns\<close>

text \<open>Once the build tool has run and printed \<open>out\<close>, the result is read off \<open>out\<close>.\<close>

lemma ValidateJibConfig_ran:
  assumes "Call_RunCmdOut cmd \<in> set (snd (ValidateJibConfig w path))"
    and "RunCmdOut w cmd = Inr out"
  shows "\<exists>tool. jibTool path = Some tool \<and>
           ValidateJibConfig w path =
             (if FindAllSubmatch out = [] then ([], [Call_RunCmdOut cmd])
              else case parseJibMatches (PluginName w (builderType tool)) path
                          (FindAllSubmatch out) of
                     Inl err \<Rightarrow>
                       ([], [Call_RunCmdOut cmd, Log_Warnf ''failed to parse jib json: %s'' err])
                   | Inr results \<Rightarrow> (results, [Call_RunCmdOut cmd]))"
proof -
  from assms(1) obtain tool where t: "jibTool path = Some tool"
    by (auto simp: ValidateJibConfig_def split: option.splits)
  have "ValidateJibConfig w path =
             (if FindAllSubmatch out = [] then ([], [Call_RunCmdOut cmd])
              else case parseJibMatches (PluginName w (builderType tool)) path
                          (FindAllSubmatch out) of
                     Inl err \<Rightarrow>
                       ([], [Call_RunCmdOut cmd, Log_Warnf ''failed to parse jib json: %s'' err])
                   | Inr results \<Rightarrow> (results, [Call_RunCmdOut cmd]))"
    using assms t
    by (auto simp: ValidateJibConfig_def Let_def split: sum.splits if_splits)
  with t show ?thesis by blast
qed

lemma example_jib_world_runs:
  "Call_RunCmdOut example_mvnw \<in> set (snd (ValidateJibConfig (example_jib_world out) ''app/pom.xml''))"
proof -
  have "jibTool ''app/pom.xml'' =
          Some \<lparr>builderType = JibMaven, executable = ''mvn'', wrapper = ''mvnw'',
                searchString = ''<artifactId>jib-maven-plugin</artifactId>'',
                taskName = ''jib:_skaffold-init''\<rparr>"
    by code_simp
  moreover have "strings_Contains ''<plugin><artifactId>jib-maven-plugin</artifactId></plugin>''
                   ''<artifactId>jib-maven-plugin</artifactId>''"
    by code_simp
  moreover have "example_Dir ''app/pom.xml'' = ''app''"
    by code_simp
  ultimately show ?thesis
    by (simp add: ValidateJibConfig_def example_jib_world_def example_mvnw_def Let_def
             split: sum.splits)
qed

text \<open>
  C7: a file whose name has none of the three suffixes, and a file that has one but
  whose contents lack the marker of its build tool, give no result, and no command is
  run for them (the run leaves no event).
\<close>

theorem ValidateJibConfig_gate:
  "(\<not> strings_HasSuffix path ''pom.xml'' \<and> \<not> strings_HasSuffix path ''build.gradle'' \<and>
    \<not> strings_HasSuffix path ''build.gradle.kts'' \<longrightarrow>
      ValidateJibConfig w path = ([], [])) \<and>
   (strings_HasSuffix path ''pom.xml'' \<and> ReadFile w path = Inr content \<and>
    \<not> strings_Contains content ''<artifactId>jib-maven-plugin</artifactId>'' \<longrightarrow>
      ValidateJibConfig w path = ([], [])) \<and>
   (\<not> strings_HasSuffix path ''pom.xml'' \<and>
    (strings_HasSuffix path ''build.gradle'' \<or> strings_HasSuffix path ''build.gradle.kts'') \<and>
    ReadFile w path = Inr content \<and>
    \<not> strings_Contains content ''com.google.cloud.tools.jib'' \<longrightarrow>
      ValidateJibConfig w path = ([], []))"
  by (simp add: ValidateJibConfig_def jibTool_def)

theorem ValidateJibConfig_gate_witness:
  "ValidateJibConfig (example_jib_world ''unused'') ''README.md'' = ([], []) \<and>
   ValidateJibConfig (example_jib_world ''unused'') ''lib/pom.xml'' = ([], []) \<and>
   ValidateJibConfig (example_jib_world ''unused'') ''web/build.gradle'' = ([], [])"
proof -
  let ?w = "example_jib_world ''unused''"
  have s1: "\<not> strings_HasSuffix ''README.md'' ''pom.xml''"
       "\<not> strings_HasSuffix ''README.md'' ''build.gradle''"
       "\<not> strings_HasSuffix ''README.md'' ''build.gradle.kts''"
    by code_simp+
  have s2: "strings_HasSuffix ''lib/pom.xml'' ''pom.xml''"
       "\<not> strings_Contains ''<project></project>'' ''<artifactId>jib-maven-plugin</artifactId>''"
    by code_simp+
  have s3: "\<not> strings_HasSuffix ''web/build.gradle'' ''pom.xml''"
       "strings_HasSuffix ''web/build.gradle'' ''build.gradle''"
       "\<not> strings_Contains ''apply plugin: java'' ''com.google.cloud.tools.jib''"
    by code_simp+
  have r2: "ReadFile ?w ''lib/pom.xml'' = Inr ''<project></project>''"
    and r3: "ReadFile ?w ''web/build.gradle'' = Inr ''apply plugin: java''"
    by (simp_all add: example_jib_world_def)
  show ?thesis
    using ValidateJibConfig_gate [where w = "?w" and path = "''README.md''"]
          ValidateJibConfig_gate [where w = "?w" and path = "''lib/pom.xml''"
            and content = "''<project></project>''"]
          ValidateJibConfig_gate [where w = "?w" and path = "''web/build.gradle''"
            and content = "''apply plugin: java''"]
          s1 s2 s3 r2 r3
    by simp
qed

text \<open>The two blocks of the output, and what each payload decodes to.\<close>

lemma FindAllSubmatch_two_modules:
  "FindAllSubmatch two_modules_output = [jibPayload ''a'' ''p1'', jibPayload ''b'' ''p2'']"
  by code_simp

lemma Unmarshal_module_a:
  "json_Unmarshal (bytes_Replace (jibPayload ''a'' ''p1'') backslash [backslash, backslash])
     \<lparr>json_Image = '''', json_Project = ''''\<rparr>
   = Inr \<lparr>json_Image = ''a'', json_Project = ''p1''\<rparr>"
  by code_simp

lemma Unmarshal_module_b:
  "json_Unmarshal (bytes_Replace (jibPayload ''b'' ''p2'') backslash [backslash, backslash])
     \<lparr>json_Image = '''', json_Project = ''''\<rparr>
   = Inr \<lparr>json_Image = ''b'', json_Project = ''p2''\<rparr>"
  by code_simp

text \<open>
  C8: when the build tool has run and printed the two blocks, the probe returns two
  results, in the order of the blocks: image \<open>a\<close> with project \<open>p1\<close>, then image \<open>b\<close>
  with project \<open>p2\<close>.
\<close>

theorem ValidateJibConfig_two_modules:
  assumes "Call_RunCmdOut cmd \<in> set (snd (ValidateJibConfig w path))"
    and "RunCmdOut w cmd = Inr two_modules_output"
  shows "\<exists>tool. jibTool path = Some tool \<and>
           fst (ValidateJibConfig w path) =
             [\<lparr>BuilderName = PluginName w (builderType tool), Image = ''a'',
               FilePath = path, Project = ''p1''\<rparr>,
              \<lparr>BuilderName = PluginName w (builderType tool), Image = ''b'',
               FilePath = path, Project = ''p2''\<rparr>]"
proof -
  from ValidateJibConfig_ran [OF assms] obtain tool where
    t: "jibTool path = Some tool" and
    v: "ValidateJibConfig w path =
          (if FindAllSubmatch two_modules_output = [] then ([], [Call_RunCmdOut cmd])
           else case parseJibMatches (PluginName w (builderType tool)) path
                       (FindAllSubmatch two_modules_output) of
                  Inl err \<Rightarrow>
                    ([], [Call_RunCmdOut cmd, Log_Warnf ''failed to parse jib json: %s'' err])
                | Inr results \<Rightarrow> (results, [Call_RunCmdOut cmd]))"
    by blast
  have "fst (ValidateJibConfig w path) =
          [\<lparr>BuilderName = PluginName w (builderType tool), Image = ''a'',
            FilePath = path, Project = ''p1''\<rparr>,
           \<lparr>BuilderName = PluginName w (builderType tool), Image = ''b'',
            FilePath = path, Project = ''p2''\<rparr>]"
    unfolding v FindAllSubmatch_two_modules
    by (simp add: Let_def Unmarshal_module_a Unmarshal_module_b)
  with t show ?thesis by blast
qed

theorem ValidateJibConfig_two_modules_witness:
  "Call_RunCmdOut example_mvnw
     \<in> set (snd (ValidateJibConfig (example_jib_world two_modules_output) ''app/pom.xml'')) \<and>
   RunCmdOut (example_jib_world two_modules_output) example_mvnw = Inr two_modules_output \<and>
   fst (ValidateJibConfig (example_jib_world two_modules_output) ''app/pom.xml'') =
     [\<lparr>BuilderName = ''Jib Maven Plugin'', Image = ''a'', FilePath = ''app/pom.xml'',
       Project = ''p1''\<rparr>,
      \<lparr>BuilderName = ''Jib Maven Plugin'', Image = ''b'', FilePath = ''app/pom.xml'',
       Project = ''p2''\<rparr>]"
proof -
  let ?w = "example_jib_world two_modules_output"
  have h1: "Call_RunCmdOut example_mvnw \<in> set (snd (ValidateJibConfig ?w ''app/pom.xml''))"
    by (rule example_jib_world_runs)
  have h2: "RunCmdOut ?w example_mvnw = Inr two_modules_output"
    by (simp add: example_jib_world_def)
  have t: "jibTool ''app/pom.xml'' =
          Some \<lparr>builderType = JibMaven, executable = ''mvn'', wrapper = ''mvnw'',
                searchString = ''<artifactId>jib-maven-plugin</artifactId>'',
                taskName = ''jib:_skaffold-init''\<rparr>"
    by code_simp
  have n: "PluginName ?w JibMaven = ''Jib Maven Plugin''"
    by (simp add: example_jib_world_def)
  from ValidateJibConfig_two_modules [OF h1 h2] t n
  have "fst (ValidateJibConfig ?w ''app/pom.xml'') =
     [\<lparr>BuilderName = ''Jib Maven Plugin'', Image = ''a'', FilePath = ''app/pom.xml'',
       Project = ''p1''\<rparr>,
      \<lparr>BuilderName = ''Jib Maven Plugin'', Image = ''b'', FilePath = ''app/pom.xml'',
       Project = ''p2''\<rparr>]"
    by auto
  with h1 h2 show ?thesis by simp
qed

text \<open>A payload that does not parse makes the whole loop fail.\<close>

lemma parseJibMatches_fails:
  assumes "m \<in> set ms"
    and "json_Unmarshal (bytes_Replace m backslash [backslash, backslash])
           \<lparr>json_Image = '''', json_Project = ''''\<rparr> = Inl err"
  shows "\<exists>err'. parseJibMatches name path ms = Inl err'"
  using assms
  by (induction ms) (auto simp: Let_def split: sum.splits)

text \<open>
  C9: when the build tool has run and one of the payloads in its output does not
  parse, the probe returns no result at all, whatever the other payloads are, and the
  run logs one warning, \<open>failed to parse jib json: %s\<close>. The probe returns a list and
  nothing else: there is no error for the caller.
\<close>

theorem ValidateJibConfig_parse_failure:
  assumes "Call_RunCmdOut cmd \<in> set (snd (ValidateJibConfig w path))"
    and "RunCmdOut w cmd = Inr out"
    and "m \<in> set (FindAllSubmatch out)"
    and "json_Unmarshal (bytes_Replace m backslash [backslash, backslash])
           \<lparr>json_Image = '''', json_Project = ''''\<rparr> = Inl err"
  shows "fst (ValidateJibConfig w path) = [] \<and>
         (\<exists>err'. snd (ValidateJibConfig w path) =
                   [Call_RunCmdOut cmd, Log_Warnf ''failed to parse jib json: %s'' err'])"
proof -
  from ValidateJibConfig_ran [OF assms(1,2)] obtain tool where
    t: "jibTool path = Some tool" and
    v: "ValidateJibConfig w path =
          (if FindAllSubmatch out = [] then ([], [Call_RunCmdOut cmd])
           else case parseJibMatches (PluginName w (builderType tool)) path
                       (FindAllSubmatch out) of
                  Inl err \<Rightarrow>
                    ([], [Call_RunCmdOut cmd, Log_Warnf ''failed to parse jib json: %s'' err])
                | Inr results \<Rightarrow> (results, [Call_RunCmdOut cmd]))"
    by blast
  from assms(3) have ne: "FindAllSubmatch out \<noteq> []" by auto
  from parseJibMatches_fails [OF assms(3,4)] obtain err' where
    "parseJibMatches (PluginName w (builderType tool)) path (FindAllSubmatch out) = Inl err'"
    by blast
  with v ne show ?thesis by simp
qed

theorem ValidateJibConfig_parse_failure_witness:
  "Call_RunCmdOut example_mvnw
     \<in> set (snd (ValidateJibConfig (example_jib_world broken_module_output) ''app/pom.xml'')) \<and>
   RunCmdOut (example_jib_world broken_module_output) example_mvnw = Inr broken_module_output \<and>
   FindAllSubmatch broken_module_output = [jibPayload ''a'' ''p1'', ''{image: b}''] \<and>
   json_Unmarshal (bytes_Replace ''{image: b}'' backslash [backslash, backslash])
     \<lparr>json_Image = '''', json_Project = ''''\<rparr> = Inl SyntaxError \<and>
   fst (ValidateJibConfig (example_jib_world broken_module_output) ''app/pom.xml'') = [] \<and>
   (\<exists>err'. snd (ValidateJibConfig (example_jib_world broken_module_output) ''app/pom.xml'') =
             [Call_RunCmdOut example_mvnw, Log_Warnf ''failed to parse jib json: %s'' err'])"
proof -
  let ?w = "example_jib_world broken_module_output"
  have h1: "Call_RunCmdOut example_mvnw \<in> set (snd (ValidateJibConfig ?w ''app/pom.xml''))"
    by (rule example_jib_world_runs)
  have h2: "RunCmdOut ?w example_mvnw = Inr broken_module_output"
    by (simp add: example_jib_world_def)
  have f: "FindAllSubmatch broken_module_output = [jibPayload ''a'' ''p1'', ''{image: b}'']"
    by code_simp
  then have h3: "''{image: b}'' \<in> set (FindAllSubmatch broken_module_output)"
    by simp
  have h4: "json_Unmarshal (bytes_Replace ''{image: b}'' backslash [backslash, backslash])
              \<lparr>json_Image = '''', json_Project = ''''\<rparr> = Inl SyntaxError"
    by code_simp
  from ValidateJibConfig_parse_failure [OF h1 h2 h3 h4] h1 h2 f h4 show ?thesis
    by simp
qed

text \<open>
  What the decoder makes of a payload after the replacement, when the two strings of
  the payload are printable ASCII without a double quote: the scanner accepts it, and
  each string is decoded to itself, backslashes included.
\<close>

lemma bytes_Replace_append:
  "bytes_Replace (xs @ ys) old new = bytes_Replace xs old new @ bytes_Replace ys old new"
  by (induction xs) simp_all

lemma bytes_Replace_plain:
  "backslash \<notin> set xs \<Longrightarrow> bytes_Replace xs backslash [backslash, backslash] = xs"
  by (induction xs) auto

lemma backslash_not_dquote: "backslash \<noteq> dquote"
  by (simp add: backslash_def dquote_def)

lemma scan_verbatim:
  assumes "verbatim s" and "step st = stateInString"
  shows "foldl scan_step st (bytes_Replace s backslash [backslash, backslash]) = st"
  using assms
proof (induction s)
  case Nil
  then show ?case by simp
next
  case (Cons c cs)
  have 1: "scan_step st c = st" if "c \<noteq> backslash"
    using that Cons.prems by (simp add: scan_step_def verbatim_def)
  have 2: "scan_step (scan_step st backslash) backslash = st"
    using Cons.prems by (simp add: scan_step_def backslash_not_dquote)
  from Cons show ?case
    by (cases "c = backslash") (simp_all add: 1 2 verbatim_def)
qed

lemma unquote_verbatim:
  "verbatim s \<Longrightarrow> unquoteBytes (bytes_Replace s backslash [backslash, backslash]) = Some s"
proof (induction s)
  case Nil
  then show ?case by simp
next
  case (Cons c cs)
  then show ?case
    by (cases "c = backslash")
       (simp_all add: verbatim_def simpleEscape_def backslash_not_dquote backslash_def)
qed

lemma tokens_string_verbatim:
  "verbatim s \<Longrightarrow>
     tokens_string acc (bytes_Replace s backslash [backslash, backslash] @ dquote # rest)
       = TString (rev acc @ bytes_Replace s backslash [backslash, backslash]) # tokens rest"
proof (induction s arbitrary: acc)
  case Nil
  then show ?case by (cases rest) simp_all
next
  case (Cons c cs)
  let ?e = "bytes_Replace cs backslash [backslash, backslash]"
  from Cons.prems have v: "verbatim cs" and cq: "c \<noteq> dquote"
    by (simp_all add: verbatim_def)
  obtain d ds where e: "?e @ dquote # rest = d # ds"
    by (cases "?e @ dquote # rest") simp_all
  show ?case
  proof (cases "c = backslash")
    case True
    then have "tokens_string acc (bytes_Replace (c # cs) backslash [backslash, backslash] @ dquote # rest)
        = tokens_string acc (backslash # backslash # ?e @ dquote # rest)" by simp
    also have "\<dots> = tokens_string (backslash # backslash # acc) (?e @ dquote # rest)"
      by (simp add: backslash_not_dquote)
    also have "\<dots> = TString (rev (backslash # backslash # acc) @ ?e) # tokens rest"
      by (rule Cons.IH [OF v])
    finally show ?thesis using True by simp
  next
    case False
    then have "tokens_string acc (bytes_Replace (c # cs) backslash [backslash, backslash] @ dquote # rest)
        = tokens_string acc (c # d # ds)" by (simp add: e)
    also have "\<dots> = tokens_string (c # acc) (d # ds)"
      using False cq by simp
    also have "\<dots> = TString (rev (c # acc) @ ?e) # tokens rest"
      unfolding e [symmetric] by (rule Cons.IH [OF v])
    finally show ?thesis using False by simp
  qed
qed

lemma payload_split:
  "jibPayload s p = payload_head @ s @ payload_middle @ p @ payload_tail"
  by (simp add: jibPayload_def quoted_def payload_head_def payload_middle_def payload_tail_def)

lemma escaped_payload:
  "bytes_Replace (jibPayload s p) backslash [backslash, backslash]
     = payload_head @ bytes_Replace s backslash [backslash, backslash] @ payload_middle
       @ bytes_Replace p backslash [backslash, backslash] @ payload_tail"
proof -
  have a: "bytes_Replace payload_head backslash [backslash, backslash] = payload_head"
    by (rule bytes_Replace_plain) (simp add: payload_head_def backslash_def dquote_def)
  have b: "bytes_Replace payload_middle backslash [backslash, backslash] = payload_middle"
    by (rule bytes_Replace_plain) (simp add: payload_middle_def backslash_def dquote_def)
  have c: "bytes_Replace payload_tail backslash [backslash, backslash] = payload_tail"
    by (rule bytes_Replace_plain) (simp add: payload_tail_def backslash_def dquote_def)
  show ?thesis
    by (simp only: payload_split bytes_Replace_append a b c)
qed

lemma checkValid_payload:
  assumes "verbatim s" and "verbatim p"
  shows "checkValid (bytes_Replace (jibPayload s p) backslash [backslash, backslash])"
proof -
  have 1: "foldl scan_step scan_reset payload_head = scanner_inString"
    by code_simp
  have 2: "foldl scan_step scanner_inString payload_middle = scanner_inString"
    by code_simp
  have 3: "scan_eof (foldl scan_step scanner_inString payload_tail)"
    by code_simp
  have i: "step scanner_inString = stateInString"
    by (simp add: scanner_inString_def)
  have "foldl scan_step scan_reset (bytes_Replace (jibPayload s p) backslash [backslash, backslash])
    = foldl scan_step (foldl scan_step (foldl scan_step (foldl scan_step
        (foldl scan_step scan_reset payload_head)
        (bytes_Replace s backslash [backslash, backslash])) payload_middle)
        (bytes_Replace p backslash [backslash, backslash])) payload_tail"
    by (simp only: escaped_payload foldl_append)
  also have "\<dots> = foldl scan_step scanner_inString payload_tail"
    by (simp only: 1 2 scan_verbatim [OF assms(1) i] scan_verbatim [OF assms(2) i])
  finally show ?thesis
    using 3 by (simp only: checkValid_def)
qed

lemma tokens_head:
  "tokens (payload_head @ x) = TBeginObject # TString ''image'' # TColon # tokens_string [] x"
  by (simp add: payload_head_def isSpace_def dquote_def backslash_def TAB_def CR_def LF_def)

lemma tokens_middle:
  "tokens ('','' @ dquote # ''project'' @ dquote # '':'' @ dquote # x)
     = TComma # TString ''project'' # TColon # tokens_string [] x"
  by (simp add: isSpace_def dquote_def backslash_def TAB_def CR_def LF_def)

lemma tokens_tail: "tokens ''}'' = [TEndObject]"
  by (simp add: isSpace_def dquote_def backslash_def TAB_def CR_def LF_def)

lemma tokens_payload:
  assumes "verbatim s" and "verbatim p"
  shows "tokens (bytes_Replace (jibPayload s p) backslash [backslash, backslash])
     = [TBeginObject, TString ''image'', TColon,
        TString (bytes_Replace s backslash [backslash, backslash]), TComma,
        TString ''project'', TColon,
        TString (bytes_Replace p backslash [backslash, backslash]), TEndObject]"
proof -
  let ?s = "bytes_Replace s backslash [backslash, backslash]"
  let ?p = "bytes_Replace p backslash [backslash, backslash]"
  have "bytes_Replace (jibPayload s p) backslash [backslash, backslash]
      = payload_head @ (?s @ dquote # ('','' @ dquote # ''project'' @ dquote # '':'' @ dquote #
          (?p @ dquote # ''}'')))"
    by (simp add: escaped_payload payload_middle_def payload_tail_def)
  then have "tokens (bytes_Replace (jibPayload s p) backslash [backslash, backslash])
      = TBeginObject # TString ''image'' # TColon # TString (rev [] @ ?s) #
        TComma # TString ''project'' # TColon # TString (rev [] @ ?p) # [TEndObject]"
    by (simp only: tokens_head tokens_string_verbatim [OF assms(1)] tokens_middle
          tokens_string_verbatim [OF assms(2)] tokens_tail)
  then show ?thesis by simp
qed

lemma decodeValue_payload:
  assumes "verbatim s" and "verbatim p"
  shows "decodeValue (bytes_Replace (jibPayload s p) backslash [backslash, backslash])
           = Some (JObject [(''image'', JString s), (''project'', JString p)])"
proof -
  have u: "unquoteBytes ''image'' = Some ''image''" "unquoteBytes ''project'' = Some ''project''"
    by code_simp+
  note q = unquote_verbatim [OF assms(1)] unquote_verbatim [OF assms(2)]
  show ?thesis
    unfolding decodeValue_def tokens_payload [OF assms]
    by (simp only: buildValue.simps addValue.simps token.case u q option.case list.case
          frame.case prod.case if_True if_False list.distinct simp_thms append_Nil append_Cons)
qed

lemma Unmarshal_payload:
  assumes "verbatim s" and "verbatim p"
  shows "json_Unmarshal (bytes_Replace (jibPayload s p) backslash [backslash, backslash])
           \<lparr>json_Image = '''', json_Project = ''''\<rparr>
         = Inr \<lparr>json_Image = s, json_Project = p\<rparr>"
proof -
  have f: "fieldOf ''image'' = Some ''Image''" "fieldOf ''project'' = Some ''Project''"
    by code_simp+
  have ne: "''Project'' \<noteq> ''Image''" by simp
  have d: "decodeObject [(''image'', JString s), (''project'', JString p)]
             \<lparr>json_Image = '''', json_Project = ''''\<rparr> None
           = (\<lparr>json_Image = s, json_Project = p\<rparr>, None)"
    by (simp only: decodeObject.simps f option.case storeString_def json.case prod.case
          if_True if_False ne) simp
  show ?thesis
    by (simp only: json_Unmarshal_def checkValid_payload [OF assms] decodeValue_payload [OF assms]
          d not_True_eq_False if_False option.case json.case prod.case)
qed

text \<open>
  C10, as the code has it. Every backslash of a payload becomes two backslashes before
  the payload is decoded, so an escape sequence of the payload is not decoded as one.
  A payload whose two strings are printable ASCII without a double quote parses after
  the replacement, and each string is decoded to the very bytes that stand between its
  quotes: the payload with \<open>C:\\app\<close>, which parses as it stands to \<open>C:\app\<close>, gives
  the image \<open>C:\\app\<close>, and the probe returns it. The payload with \<open>a\"b\<close> parses as
  it stands; after the replacement it does not, and the probe returns nothing and logs
  the warning.
\<close>

theorem backslash_escaping:
  "bytes_Replace m backslash [backslash, backslash]
     = concat (map (\<lambda>c. if c = backslash then [backslash, backslash] else [c]) m) \<and>
   (verbatim s \<and> verbatim p \<longrightarrow>
      json_Unmarshal (bytes_Replace (jibPayload s p) backslash [backslash, backslash]) jibJSON_zero
        = Inr \<lparr>json_Image = s, json_Project = p\<rparr>) \<and>
   json_Unmarshal escaped_backslash_payload jibJSON_zero
     = Inr \<lparr>json_Image = ''C:'' @ [backslash] @ ''app'', json_Project = ''p''\<rparr> \<and>
   ValidateJibConfig (example_jib_world (''BEGIN JIB JSON\<newline>'' @ escaped_backslash_payload))
     ''app/pom.xml''
     = ([\<lparr>BuilderName = ''Jib Maven Plugin'',
          Image = ''C:'' @ [backslash, backslash] @ ''app'',
          FilePath = ''app/pom.xml'', Project = ''p''\<rparr>],
        [Call_RunCmdOut example_mvnw]) \<and>
   json_Unmarshal escaped_quote_payload jibJSON_zero
     = Inr \<lparr>json_Image = [CHR ''a'', dquote, CHR ''b''], json_Project = ''p''\<rparr> \<and>
   ValidateJibConfig (example_jib_world (''BEGIN JIB JSON\<newline>'' @ escaped_quote_payload))
     ''app/pom.xml''
     = ([], [Call_RunCmdOut example_mvnw, Log_Warnf ''failed to parse jib json: %s'' SyntaxError])"
proof -
  have a: "bytes_Replace m backslash [backslash, backslash]
     = concat (map (\<lambda>c. if c = backslash then [backslash, backslash] else [c]) m)"
    by (induction m) simp_all
  have g: "verbatim s \<and> verbatim p \<longrightarrow>
      json_Unmarshal (bytes_Replace (jibPayload s p) backslash [backslash, backslash]) jibJSON_zero
        = Inr \<lparr>json_Image = s, json_Project = p\<rparr>"
    unfolding jibJSON_zero_def using Unmarshal_payload by blast
  have b: "json_Unmarshal escaped_quote_payload jibJSON_zero
     = Inr \<lparr>json_Image = [CHR ''a'', dquote, CHR ''b''], json_Project = ''p''\<rparr>"
    by code_simp
  have c: "ValidateJibConfig (example_jib_world (''BEGIN JIB JSON\<newline>'' @ escaped_quote_payload))
     ''app/pom.xml''
     = ([], [Call_RunCmdOut example_mvnw, Log_Warnf ''failed to parse jib json: %s'' SyntaxError])"
    by code_simp
  have d: "json_Unmarshal escaped_backslash_payload jibJSON_zero
     = Inr \<lparr>json_Image = ''C:'' @ [backslash] @ ''app'', json_Project = ''p''\<rparr>"
    by code_simp
  have e: "ValidateJibConfig (example_jib_world (''BEGIN JIB JSON\<newline>'' @ escaped_backslash_payload))
     ''app/pom.xml''
     = ([\<lparr>BuilderName = ''Jib Maven Plugin'',
          Image = ''C:'' @ [backslash, backslash] @ ''app'',
          FilePath = ''app/pom.xml'', Project = ''p''\<rparr>],
        [Call_RunCmdOut example_mvnw])"
    by code_simp
  from a g b c d e show ?thesis by blast
qed

theorem backslash_escaping_witness:
  "verbatim (''C:'' @ [backslash, backslash] @ ''app'') \<and> verbatim ''p'' \<and>
   json_Unmarshal
     (bytes_Replace (jibPayload (''C:'' @ [backslash, backslash] @ ''app'') ''p'')
        backslash [backslash, backslash]) jibJSON_zero
     = Inr \<lparr>json_Image = ''C:'' @ [backslash, backslash] @ ''app'', json_Project = ''p''\<rparr>"
proof -
  have v: "verbatim (''C:'' @ [backslash, backslash] @ ''app'')" "verbatim ''p''"
    by code_simp+
  from v backslash_escaping [where s = "''C:'' @ [backslash, backslash] @ ''app''" and p = "''p''"]
  show ?thesis by blast
qed

text \<open>
  The payload with the escape sequence \<open>\\\<close> is a payload for which the decoding after
  the replacement does not fail, and for which the probe returns a result.
\<close>

theorem backslash_escaping_counterexample:
  "json_Unmarshal
     (bytes_Replace escaped_backslash_payload backslash [backslash, backslash]) jibJSON_zero
     = Inr \<lparr>json_Image = ''C:'' @ [backslash, backslash] @ ''app'', json_Project = ''p''\<rparr> \<and>
   length (fst (ValidateJibConfig
                  (example_jib_world (''BEGIN JIB JSON\<newline>'' @ escaped_backslash_payload))
                  ''app/pom.xml'')) = 1"
  by code_simp

end
